theory Spec2Isabelle
  imports Complex_Main "HOL-Library.Sublist" "HOL-Library.Code_Target_Nat"
begin

section \<open>Text primitives\<close>

text \<open>
  A Python \<open>str\<close> is modelled as the list of its code points; \<open>cp\<close> turns a literal of
  this theory into such a list. The Unicode database of the interpreter is a parameter
  of the model: beyond ASCII it says which code points are decimal digits, and with
  which value (the class \<open>\d\<close> of \<open>re\<close>, and the digits that \<open>float\<close> accepts), which are
  whitespace (the class \<open>\s\<close>, and what \<open>str.strip\<close> removes), and what \<open>str.lower\<close>
  returns. On the ASCII range the digits and the whitespace are the fixed ones.
\<close>

type_synonym ustring = "nat list"

definition cp :: "string \<Rightarrow> ustring" where
  "cp s = map of_char s"

abbreviation dot :: nat where "dot \<equiv> 46"

abbreviation comma :: nat where "comma \<equiv> 44"

abbreviation percent :: nat where "percent \<equiv> 37"

abbreviation blank :: nat where "blank \<equiv> 32"

abbreviation hyphen :: nat where "hyphen \<equiv> 45"

abbreviation underscore :: nat where "underscore \<equiv> 95"

abbreviation dquote :: nat where "dquote \<equiv> 34"

record unicode =
  decimal_of :: "nat \<Rightarrow> nat option"
  white :: "nat \<Rightarrow> bool"
  lowered :: "ustring \<Rightarrow> ustring"

definition digit_value :: "unicode \<Rightarrow> nat \<Rightarrow> nat option" where
  "digit_value u c =
     (if c < 128 then (if 48 \<le> c \<and> c \<le> 57 then Some (c - 48) else None)
      else case decimal_of u c of
             None \<Rightarrow> None
           | Some v \<Rightarrow> if v < 10 then Some v else None)"

definition is_digit :: "unicode \<Rightarrow> nat \<Rightarrow> bool" where
  "is_digit u c = (digit_value u c \<noteq> None)"

definition is_space :: "unicode \<Rightarrow> nat \<Rightarrow> bool" where
  "is_space u c =
     (if c < 128 then c \<in> set [9, 10, 11, 12, 13, 28, 29, 30, 31, 32] else white u c)"

definition lower :: "unicode \<Rightarrow> ustring \<Rightarrow> ustring" where
  "lower u s = lowered u s"

definition strip :: "unicode \<Rightarrow> ustring \<Rightarrow> ustring" where
  "strip u s = rev (dropWhile (is_space u) (rev (dropWhile (is_space u) s)))"

text \<open>The rupee sign U+20B9.\<close>

definition rupee :: ustring where
  "rupee = [0x20B9]"

text \<open>The value of a run of decimal digits, most significant digit first.\<close>

definition decimal :: "unicode \<Rightarrow> ustring \<Rightarrow> nat" where
  "decimal u ds = foldl (\<lambda>acc c. 10 * acc + the (digit_value u c)) 0 ds"

section \<open>Regular expressions of the \<open>re\<close> module\<close>

text \<open>
  The fragment of \<open>re\<close> that the scraper's patterns use: single-character atoms,
  sequence, alternation, the greedy optional group, and greedy repetition of an atom.
  \<open>rx_match u r s\<close> lists, in the backtracking order of \<open>re\<close>, what is left of \<open>s\<close>
  after each way of matching \<open>r\<close> at its start.

  \<open>LitI a\<close> is the ASCII character \<open>a\<close> of a pattern compiled with \<open>re.I\<close>. A letter
  matches its two ASCII cases and, beyond ASCII, U+0130 and U+0131 for \<open>i\<close>, U+017F for
  \<open>s\<close> and U+212A for \<open>k\<close>; \<open>sre_lower c\<close> is the lower-case ASCII letter that \<open>c\<close> matches,
  and \<open>c\<close> itself when there is none.
\<close>

definition sre_lower :: "nat \<Rightarrow> nat" where
  "sre_lower c =
     (if 65 \<le> c \<and> c \<le> 90 then c + 32
      else if c = 0x130 \<or> c = 0x131 then 105
      else if c = 0x17F then 115
      else if c = 0x212A then 107
      else c)"

datatype atom =
    Lit nat
  | LitI nat
  | Digit
  | Space
  | OneOf "atom list"

fun atom_ok :: "unicode \<Rightarrow> atom \<Rightarrow> nat \<Rightarrow> bool" where
  "atom_ok u (Lit a) c = (c = a)"
| "atom_ok u (LitI a) c = (sre_lower c = sre_lower a)"
| "atom_ok u Digit c = is_digit u c"
| "atom_ok u Space c = is_space u c"
| "atom_ok u (OneOf as) c = list_ex (\<lambda>a. atom_ok u a c) as"

datatype rx =
    Eps
  | Atom atom
  | Seq rx rx
  | Alt rx rx
  | Opt rx
  | Star atom
  | Plus atom

fun rx_match :: "unicode \<Rightarrow> rx \<Rightarrow> ustring \<Rightarrow> ustring list" where
  "rx_match u Eps s = [s]"
| "rx_match u (Atom a) s =
     (case s of [] \<Rightarrow> [] | c # cs \<Rightarrow> if atom_ok u a c then [cs] else [])"
| "rx_match u (Seq r1 r2) s = concat (map (rx_match u r2) (rx_match u r1 s))"
| "rx_match u (Alt r1 r2) s = rx_match u r1 s @ rx_match u r2 s"
| "rx_match u (Opt r) s = rx_match u r s @ [s]"
| "rx_match u (Star a) s =
     map (\<lambda>k. drop k s) (rev [0 ..< Suc (length (takeWhile (atom_ok u a) s))])"
| "rx_match u (Plus a) s =
     map (\<lambda>k. drop k s) (rev [1 ..< Suc (length (takeWhile (atom_ok u a) s))])"

text \<open>
  \<open>re.search\<close> for a pattern \<open>(g)r\<close>: the leftmost position where the pattern matches,
  and there the first match in backtracking order; the result is \<open>group(1)\<close>.
\<close>

definition match_group :: "unicode \<Rightarrow> rx \<Rightarrow> rx \<Rightarrow> ustring \<Rightarrow> ustring option" where
  "match_group u g r s =
     (case filter (\<lambda>rest. rx_match u r rest \<noteq> []) (rx_match u g s) of
        [] \<Rightarrow> None
      | rest # _ \<Rightarrow> Some (take (length s - length rest) s))"

fun search_group :: "unicode \<Rightarrow> rx \<Rightarrow> rx \<Rightarrow> ustring \<Rightarrow> ustring option" where
  "search_group u g r [] = match_group u g r []"
| "search_group u g r (c # cs) =
     (case match_group u g r (c # cs) of
        Some m \<Rightarrow> Some m
      | None \<Rightarrow> search_group u g r cs)"

definition rx_search :: "unicode \<Rightarrow> rx \<Rightarrow> ustring \<Rightarrow> ustring option" where
  "rx_search u r s = search_group u r Eps s"

section \<open>Python values\<close>

text \<open>
  A Python \<open>float\<close> is an IEEE 754 double: a rational number that a double represents,
  an infinity, or not a number. The sign of zero is not modelled. \<open>to_double q\<close> is the
  double nearest to the rational \<open>q\<close>, ties to the even mantissa, and an infinity beyond
  the largest double: the result of \<open>float\<close> on a decimal numeral, and of each arithmetic
  operation on the exact result.
\<close>

datatype pyfloat = Finite rat | PosInf | NegInf | NaN

function bit_length :: "int \<Rightarrow> int" where
  "bit_length n = (if n \<le> 0 then 0 else 1 + bit_length (n div 2))"
  by pat_completeness auto

termination
  by (relation "measure nat") auto

declare bit_length.simps [simp del]

definition round_half_even :: "rat \<Rightarrow> int" where
  "round_half_even x =
     (let f = \<lfloor>x\<rfloor>; d = x - of_int f in
      if d < 1 / 2 then f
      else if 1 / 2 < d then f + 1
      else if even f then f else f + 1)"

definition pow2 :: "int \<Rightarrow> rat" where
  "pow2 e = (if 0 \<le> e then 2 ^ nat e else 1 / 2 ^ nat (- e))"

text \<open>The exponent \<open>e\<close> with \<open>2 ^ e \<le> q < 2 ^ (e + 1)\<close>, for a positive \<open>q\<close>.\<close>

definition floor_log2 :: "rat \<Rightarrow> int" where
  "floor_log2 q =
     (if 1 \<le> q then bit_length \<lfloor>q\<rfloor> - 1
      else - bit_length (\<lceil>1 / q\<rceil> - 1))"

definition to_double :: "rat \<Rightarrow> pyfloat" where
  "to_double q =
     (if q = 0 then Finite 0
      else
        let ulp = pow2 (max (floor_log2 \<bar>q\<bar>) (- 1022) - 52);
            r = of_int (round_half_even (\<bar>q\<bar> / ulp)) * ulp
        in if 2 ^ 1024 \<le> r then (if q < 0 then NegInf else PosInf)
           else Finite (if q < 0 then - r else r))"

text \<open>
  Subtraction, division and multiplication of doubles. A zero divisor raises
  \<open>ZeroDivisionError\<close> in Python; the one division of the scraper is guarded by the
  truthiness of its divisor, and the model gives it the value \<open>NaN\<close>.
\<close>

fun f_sub :: "pyfloat \<Rightarrow> pyfloat \<Rightarrow> pyfloat" where
  "f_sub (Finite x) (Finite y) = to_double (x - y)"
| "f_sub NaN b = NaN"
| "f_sub a NaN = NaN"
| "f_sub PosInf PosInf = NaN"
| "f_sub NegInf NegInf = NaN"
| "f_sub PosInf b = PosInf"
| "f_sub NegInf b = NegInf"
| "f_sub a PosInf = NegInf"
| "f_sub a NegInf = PosInf"

text \<open>The sign of a double: \<open>1\<close>, \<open>- 1\<close>, or \<open>0\<close> for zero and for \<open>NaN\<close>.\<close>

fun f_sign :: "pyfloat \<Rightarrow> int" where
  "f_sign (Finite x) = (if 0 < x then 1 else if x < 0 then - 1 else 0)"
| "f_sign PosInf = 1"
| "f_sign NegInf = - 1"
| "f_sign NaN = 0"

definition inf_of_sign :: "int \<Rightarrow> pyfloat" where
  "inf_of_sign s = (if s = 0 then NaN else if 0 < s then PosInf else NegInf)"

fun f_mul :: "pyfloat \<Rightarrow> pyfloat \<Rightarrow> pyfloat" where
  "f_mul (Finite x) (Finite y) = to_double (x * y)"
| "f_mul NaN b = NaN"
| "f_mul a NaN = NaN"
| "f_mul a b = inf_of_sign (f_sign a * f_sign b)"

fun f_div :: "pyfloat \<Rightarrow> pyfloat \<Rightarrow> pyfloat" where
  "f_div (Finite x) (Finite y) = (if y = 0 then NaN else to_double (x / y))"
| "f_div NaN b = NaN"
| "f_div a NaN = NaN"
| "f_div (Finite x) b = Finite 0"
| "f_div a (Finite y) = inf_of_sign (f_sign a * f_sign (Finite y))"
| "f_div a b = NaN"

fun f_less :: "pyfloat \<Rightarrow> pyfloat \<Rightarrow> bool" where
  "f_less (Finite x) (Finite y) = (x < y)"
| "f_less NaN b = False"
| "f_less a NaN = False"
| "f_less PosInf b = False"
| "f_less a NegInf = False"
| "f_less a b = True"

fun f_le :: "pyfloat \<Rightarrow> pyfloat \<Rightarrow> bool" where
  "f_le (Finite x) (Finite y) = (x \<le> y)"
| "f_le NaN b = False"
| "f_le a NaN = False"
| "f_le a PosInf = True"
| "f_le NegInf b = True"
| "f_le a b = False"

text \<open>An optional text is falsy when it is \<open>None\<close> or the empty string.\<close>

datatype error = ValueError | Exception string

definition falsy :: "ustring option \<Rightarrow> bool" where
  "falsy text = (case text of None \<Rightarrow> True | Some t \<Rightarrow> t = [])"

text \<open>
  \<open>float(s)\<close> on the texts that reach it, which hold digits and \<open>.\<close> only: a digit run
  with an optional fraction, or a fraction with at least one digit. Everything else
  raises \<open>ValueError\<close>.
\<close>

definition py_float :: "unicode \<Rightarrow> ustring \<Rightarrow> error + pyfloat" where
  "py_float u s =
     (let ip = takeWhile (is_digit u) s; r = dropWhile (is_digit u) s in
      case r of
        [] \<Rightarrow> if ip = [] then Inl ValueError else Inr (to_double (of_nat (decimal u ip)))
      | c # fp \<Rightarrow>
          if c = dot \<and> list_all (is_digit u) fp \<and> (ip \<noteq> [] \<or> fp \<noteq> [])
          then Inr (to_double (of_nat (decimal u ip)
                                 + of_nat (decimal u fp) / 10 ^ length fp))
          else Inl ValueError)"

section \<open>Field normalizers\<close>

definition extract_price :: "unicode \<Rightarrow> ustring option \<Rightarrow> pyfloat option" where
  "extract_price u text =
     (if falsy text then None
      else
        let cleaned = filter (\<lambda>c. is_digit u c \<or> c = dot \<or> c = comma) (strip u (the text));
            cleaned = filter (\<lambda>c. c \<noteq> comma) cleaned
        in if cleaned = [] then None
           else (case py_float u cleaned of Inr v \<Rightarrow> Some v | Inl e \<Rightarrow> None))"

text \<open>The pattern \<open>(\d+(?:\.\d+)?)\s*%\<close>, as its group and what follows the group.\<close>

definition percent_group :: rx where
  "percent_group = Seq (Plus Digit) (Opt (Seq (Atom (Lit dot)) (Plus Digit)))"

definition percent_tail :: rx where
  "percent_tail = Seq (Star Space) (Atom (Lit percent))"

text \<open>The pattern \<open>[\d,]+(?:\.\d+)?\<close>.\<close>

definition amount_rx :: rx where
  "amount_rx = Seq (Plus (OneOf [Digit, Lit comma]))
                   (Opt (Seq (Atom (Lit dot)) (Plus Digit)))"

definition extract_discount :: "unicode \<Rightarrow> ustring option \<Rightarrow> ustring option" where
  "extract_discount u text =
     (if falsy text then None
      else
        let t = the text in
        case search_group u percent_group percent_tail t of
          Some g \<Rightarrow> Some (g @ [percent])
        | None \<Rightarrow>
            (case rx_search u amount_rx t of
               Some m \<Rightarrow> Some (rupee @ filter (\<lambda>c. c \<noteq> comma) m)
             | None \<Rightarrow> if strip u t \<noteq> [] then Some (strip u t) else None))"

text \<open>The pattern \<open>(\d(?:\.\d)?)\<close>.\<close>

definition rating_rx :: rx where
  "rating_rx = Seq (Atom Digit) (Opt (Seq (Atom (Lit dot)) (Atom Digit)))"

definition extract_rating :: "unicode \<Rightarrow> ustring option \<Rightarrow> pyfloat option" where
  "extract_rating u text =
     (if falsy text then None
      else
        case rx_search u rating_rx (the text) of
          Some m \<Rightarrow>
            (case py_float u m of
               Inr rating \<Rightarrow>
                 if f_le (Finite 0) rating \<and> f_le rating (Finite 5) then Some rating else None
             | Inl e \<Rightarrow> None)
        | None \<Rightarrow> None)"

section \<open>The document tree\<close>

text \<open>
  The parsed page, as BeautifulSoup hands it over: a tag has a name, a dictionary of
  attributes and children; a multi-valued attribute such as \<open>class\<close> holds the list of
  its tokens. \<open>bool(tag)\<close> is true for every tag, so an optional tag is falsy only
  when it is \<open>None\<close>.
\<close>

datatype attr_value = Str ustring | Lst "ustring list"

datatype node =
    Tag ustring "(ustring \<times> attr_value) list" "node list"
  | NavigableString ustring

fun descendants :: "node \<Rightarrow> node list" where
  "descendants (Tag name attrs children) =
     concat (map (\<lambda>c. c # descendants c) children)"
| "descendants (NavigableString s) = []"

text \<open>\<open>element.get_text(strip=True)\<close>: the stripped, non-empty strings below the tag.\<close>

fun string_of :: "node \<Rightarrow> ustring list" where
  "string_of (NavigableString s) = [s]"
| "string_of (Tag name attrs children) = []"

definition get_text :: "unicode \<Rightarrow> node \<Rightarrow> ustring" where
  "get_text u element =
     concat (filter (\<lambda>s. s \<noteq> [])
               (map (strip u) (concat (map string_of (descendants element)))))"

definition safe_get_text :: "unicode \<Rightarrow> node option \<Rightarrow> ustring" where
  "safe_get_text u element =
     (case element of None \<Rightarrow> [] | Some e \<Rightarrow> get_text u e)"

subsection \<open>Search patterns\<close>

text \<open>
  What a pattern asks of an attribute: a compiled regular expression to be searched
  in the value, an exact string, or \<open>True\<close> (the attribute is present).
\<close>

datatype matcher = Regex rx | Equals ustring | IsTrue

record pattern =
  p_tag :: "ustring option"
  p_attrs :: "(ustring \<times> matcher) list"

fun join :: "ustring \<Rightarrow> ustring list \<Rightarrow> ustring" where
  "join sep [] = []"
| "join sep [x] = x"
| "join sep (x # y # ys) = x @ sep @ join sep (y # ys)"

fun matches_str :: "unicode \<Rightarrow> ustring \<Rightarrow> matcher \<Rightarrow> bool" where
  "matches_str u s IsTrue = True"
| "matches_str u s (Equals t) = (s = t)"
| "matches_str u s (Regex r) = (rx_search u r s \<noteq> None)"

text \<open>
  A missing attribute matches only a falsy request; a multi-valued attribute matches
  when one of its tokens does, or the tokens joined by a space do.
\<close>

fun matches_value :: "unicode \<Rightarrow> attr_value option \<Rightarrow> matcher \<Rightarrow> bool" where
  "matches_value u None IsTrue = False"
| "matches_value u None (Equals t) = (t = [])"
| "matches_value u None (Regex r) = False"
| "matches_value u (Some (Str s)) m = matches_str u s m"
| "matches_value u (Some (Lst xs)) m =
     (list_ex (\<lambda>x. matches_str u x m) xs \<or> matches_str u (join [blank] xs) m)"

fun search_tag :: "unicode \<Rightarrow> pattern \<Rightarrow> node \<Rightarrow> bool" where
  "search_tag u p (NavigableString s) = False"
| "search_tag u p (Tag name attrs children) =
     ((case p_tag p of None \<Rightarrow> True | Some n \<Rightarrow> name = n) \<and>
      list_all (\<lambda>(k, m). matches_value u (map_of attrs k) m) (p_attrs p))"

text \<open>
  \<open>find_all\<close> returns the matching tags below its receiver in document order;
  \<open>find\<close> returns the first of them, or \<open>None\<close>.
\<close>

definition find_all :: "unicode \<Rightarrow> node \<Rightarrow> pattern \<Rightarrow> node list" where
  "find_all u soup p = filter (search_tag u p) (descendants soup)"

definition find_elem :: "unicode \<Rightarrow> node \<Rightarrow> pattern \<Rightarrow> node option" where
  "find_elem u container p =
     (case find_all u container p of [] \<Rightarrow> None | e # _ \<Rightarrow> Some e)"

section \<open>Availability\<close>

definition out_of_stock_patterns :: "ustring list" where
  "out_of_stock_patterns =
     map cp [''out of stock'', ''sold out'', ''unavailable'', ''not available'',
             ''currently unavailable'', ''out-of-stock'', ''soldout'']"

definition in_stock_patterns :: "ustring list" where
  "in_stock_patterns =
     map cp [''in stock'', ''available'', ''add to cart'', ''buy now'', ''in-stock'',
             ''instock'']"

text \<open>The loop \<open>for pattern in patterns: if pattern in search_text: return ...\<close>.\<close>

fun any_pattern_in :: "ustring list \<Rightarrow> ustring \<Rightarrow> bool" where
  "any_pattern_in [] search_text = False"
| "any_pattern_in (pattern # patterns) search_text =
     (if sublist pattern search_text then True else any_pattern_in patterns search_text)"

text \<open>
  \<open>str(element)\<close>, the markup of the element as BeautifulSoup serialises it, is a
  parameter \<open>render\<close> of the model.
\<close>

definition search_text ::
    "unicode \<Rightarrow> (node \<Rightarrow> ustring) \<Rightarrow> node option \<Rightarrow> ustring option \<Rightarrow> ustring" where
  "search_text u render element text =
     (let st = (if falsy text then [] else lower u (the text)) in
      case element of
        None \<Rightarrow> st
      | Some e \<Rightarrow> st @ [blank] @ lower u (render e))"

definition determine_availability ::
    "unicode \<Rightarrow> (node \<Rightarrow> ustring) \<Rightarrow> node option \<Rightarrow> ustring option \<Rightarrow> ustring" where
  "determine_availability u render element text =
     (if falsy text \<and> element = None then cp ''Unknown''
      else if any_pattern_in out_of_stock_patterns (search_text u render element text)
        then cp ''Out of Stock''
      else if any_pattern_in in_stock_patterns (search_text u render element text)
        then cp ''In Stock''
      else cp ''Unknown'')"

section \<open>The pattern matcher\<close>

fun find_element_by_patterns :: "unicode \<Rightarrow> node \<Rightarrow> pattern list \<Rightarrow> node option" where
  "find_element_by_patterns u container [] = None"
| "find_element_by_patterns u container (pattern # tag_patterns) =
     (case find_elem u container pattern of
        Some element \<Rightarrow> Some element
      | None \<Rightarrow> find_element_by_patterns u container tag_patterns)"

subsection \<open>The pattern tables\<close>

text \<open>A literal word under \<open>re.I\<close>, and the alternation \<open>w1|w2|...\<close> of such words.\<close>

definition lit_i :: "string \<Rightarrow> rx" where
  "lit_i w = foldr (\<lambda>c r. Seq (Atom (LitI c)) r) (cp w) Eps"

fun any_of :: "rx list \<Rightarrow> rx" where
  "any_of [] = Atom (OneOf [])"
| "any_of [r] = r"
| "any_of (r # r' # rs) = Alt r (any_of (r' # rs))"

definition class_re :: "string list \<Rightarrow> (ustring \<times> matcher) list" where
  "class_re ws = [(cp ''class'', Regex (any_of (map lit_i ws)))]"

text \<open>The pattern \<open>a[-_]?b\<close> under \<open>re.I\<close>.\<close>

definition dashed :: "string \<Rightarrow> string \<Rightarrow> rx" where
  "dashed a b =
     Seq (lit_i a) (Seq (Opt (Atom (OneOf [Lit hyphen, Lit underscore]))) (lit_i b))"

definition name_patterns :: "pattern list" where
  "name_patterns =
     [\<lparr>p_tag = Some (cp ''h2''), p_attrs = []\<rparr>,
      \<lparr>p_tag = Some (cp ''h3''), p_attrs = []\<rparr>,
      \<lparr>p_tag = Some (cp ''a''), p_attrs = class_re [''title'', ''name'', ''product'']\<rparr>,
      \<lparr>p_tag = Some (cp ''span''), p_attrs = class_re [''title'', ''name'', ''product'']\<rparr>,
      \<lparr>p_tag = Some (cp ''div''), p_attrs = class_re [''title'', ''name'', ''product'']\<rparr>]"

definition current_price_patterns :: "pattern list" where
  "current_price_patterns =
     [\<lparr>p_tag = Some (cp ''span''),
       p_attrs = class_re [''price'', ''cost'', ''sale'', ''final'']\<rparr>,
      \<lparr>p_tag = Some (cp ''div''),
       p_attrs = class_re [''price'', ''cost'', ''sale'', ''final'']\<rparr>,
      \<lparr>p_tag = None, p_attrs = [(cp ''data-price'', IsTrue)]\<rparr>]"

definition mrp_patterns :: "pattern list" where
  "mrp_patterns =
     [\<lparr>p_tag = Some (cp ''span''),
       p_attrs = class_re [''mrp'', ''original'', ''strike'', ''was'', ''old'']\<rparr>,
      \<lparr>p_tag = Some (cp ''del''), p_attrs = []\<rparr>,
      \<lparr>p_tag = Some (cp ''s''), p_attrs = []\<rparr>,
      \<lparr>p_tag = Some (cp ''strike''), p_attrs = []\<rparr>]"

definition discount_patterns :: "pattern list" where
  "discount_patterns =
     [\<lparr>p_tag = Some (cp ''span''),
       p_attrs = class_re [''discount'', ''off'', ''save'', ''percent'']\<rparr>,
      \<lparr>p_tag = Some (cp ''div''),
       p_attrs = class_re [''discount'', ''off'', ''save'', ''percent'']\<rparr>]"

definition rating_patterns :: "pattern list" where
  "rating_patterns =
     [\<lparr>p_tag = Some (cp ''span''), p_attrs = class_re [''rating'', ''star'', ''review'']\<rparr>,
      \<lparr>p_tag = Some (cp ''div''), p_attrs = class_re [''rating'', ''star'', ''review'']\<rparr>,
      \<lparr>p_tag = None, p_attrs = [(cp ''data-rating'', IsTrue)]\<rparr>]"

definition availability_patterns :: "pattern list" where
  "availability_patterns =
     [\<lparr>p_tag = Some (cp ''span''), p_attrs = class_re [''stock'', ''avail'', ''inventory'']\<rparr>,
      \<lparr>p_tag = Some (cp ''div''), p_attrs = class_re [''stock'', ''avail'', ''inventory'']\<rparr>]"

definition container_patterns :: "pattern list" where
  "container_patterns =
     [\<lparr>p_tag = None, p_attrs = [(cp ''class'', Regex (dashed ''product'' ''card''))]\<rparr>,
      \<lparr>p_tag = None, p_attrs = [(cp ''class'', Regex (dashed ''product'' ''item''))]\<rparr>,
      \<lparr>p_tag = None, p_attrs = [(cp ''class'', Regex (dashed ''product'' ''tile''))]\<rparr>,
      \<lparr>p_tag = None, p_attrs = [(cp ''class'', Regex (dashed ''search'' ''result''))]\<rparr>,
      \<lparr>p_tag = None,
       p_attrs = [(cp ''data-component-type'', Equals (cp ''s-search-result''))]\<rparr>,
      \<lparr>p_tag = None, p_attrs = [(cp ''class'', Regex (lit_i ''_1AtVbE''))]\<rparr>]"

section \<open>The record extractor\<close>

record product_data =
  product_name :: "ustring option"
  current_price :: "pyfloat option"
  mrp :: "pyfloat option"
  discount :: "ustring option"
  rating :: "pyfloat option"
  availability :: ustring
  scrape_timestamp_utc :: ustring
  source_url :: "ustring option"

text \<open>Truthiness of an optional number: \<open>None\<close> and \<open>0.0\<close> are falsy.\<close>

definition truthy_num :: "pyfloat option \<Rightarrow> bool" where
  "truthy_num x = (case x of None \<Rightarrow> False | Some v \<Rightarrow> v \<noteq> Finite 0)"

text \<open>
  The format \<open>{x:.1f}\<close>: one decimal, the tenth nearest to the value of the double, ties
  to the even tenth.
\<close>

definition digit_char :: "nat \<Rightarrow> nat" where
  "digit_char n = 48 + n mod 10"

fun show_nat :: "nat \<Rightarrow> ustring" where
  "show_nat n = (if n < 10 then [digit_char n] else show_nat (n div 10) @ [digit_char n])"

definition format_1f :: "pyfloat \<Rightarrow> ustring" where
  "format_1f x =
     (case x of
        Finite q \<Rightarrow>
          (let n = round_half_even (\<bar>q\<bar> * 10) in
           (if q < 0 then cp ''-'' else []) @
           show_nat (nat (n div 10)) @ [dot] @ show_nat (nat (n mod 10)))
      | PosInf \<Rightarrow> cp ''inf''
      | NegInf \<Rightarrow> cp ''-inf''
      | NaN \<Rightarrow> cp ''nan'')"

text \<open>
  \<open>now\<close> is the value of \<open>datetime.now(timezone.utc).isoformat()\<close> read while the record
  is built. The key \<open>source_url\<close> is absent until the caller sets it.
\<close>

definition extract_product_data ::
    "unicode \<Rightarrow> (node \<Rightarrow> ustring) \<Rightarrow> ustring \<Rightarrow> node \<Rightarrow> product_data" where
  "extract_product_data u render now product_element =
     (let name_elem = find_element_by_patterns u product_element name_patterns;
          price_elem = find_element_by_patterns u product_element current_price_patterns;
          mrp_elem = find_element_by_patterns u product_element mrp_patterns;
          discount_elem = find_element_by_patterns u product_element discount_patterns;
          rating_elem = find_element_by_patterns u product_element rating_patterns;
          availability_elem =
            find_element_by_patterns u product_element availability_patterns;
          data = \<lparr>
            product_name =
              (if safe_get_text u name_elem = [] then None
               else Some (safe_get_text u name_elem)),
            current_price = extract_price u (Some (safe_get_text u price_elem)),
            mrp = extract_price u (Some (safe_get_text u mrp_elem)),
            discount = extract_discount u (Some (safe_get_text u discount_elem)),
            rating = extract_rating u (Some (safe_get_text u rating_elem)),
            availability =
              determine_availability u render availability_elem
                (Some (safe_get_text u availability_elem)),
            scrape_timestamp_utc = now,
            source_url = None\<rparr>
      in if discount data = None
            \<and> truthy_num (mrp data)
            \<and> truthy_num (current_price data)
            \<and> f_less (the (current_price data)) (the (mrp data))
         then data\<lparr>discount :=
                Some (format_1f
                        (f_mul (f_div (f_sub (the (mrp data)) (the (current_price data)))
                                      (the (mrp data)))
                               (Finite 100))
                      @ [percent])\<rparr>
         else data)"

section \<open>The container locator and the listing\<close>

text \<open>The loop over the container patterns: the first non-empty result ends it.\<close>

fun first_found :: "unicode \<Rightarrow> node \<Rightarrow> pattern list \<Rightarrow> node list" where
  "first_found u soup [] = []"
| "first_found u soup (pattern # patterns) =
     (let found = find_all u soup pattern in
      if found \<noteq> [] then found else first_found u soup patterns)"

definition find_product_containers :: "unicode \<Rightarrow> node \<Rightarrow> node list" where
  "find_product_containers u soup = first_found u soup container_patterns"

text \<open>
  The loop of \<open>scrape_listing_page\<close> over the containers. \<open>extract\<close> is the call
  \<open>self.extract_product_data(container)\<close> inside the \<open>try\<close>: it may raise, which is the
  result \<open>Inl\<close>. \<open>clock idx\<close> is the time read while container \<open>idx\<close> is extracted.
\<close>

definition truthy_name :: "product_data \<Rightarrow> bool" where
  "truthy_name data = (case product_name data of None \<Rightarrow> False | Some n \<Rightarrow> n \<noteq> [])"

fun scrape_containers ::
    "(ustring \<Rightarrow> node \<Rightarrow> error + product_data) \<Rightarrow> ustring \<Rightarrow> (nat \<Rightarrow> ustring)
       \<Rightarrow> nat \<Rightarrow> node list \<Rightarrow> product_data list" where
  "scrape_containers extract url clock idx [] = []"
| "scrape_containers extract url clock idx (container # containers) =
     (case extract (clock idx) container of
        Inl e \<Rightarrow> scrape_containers extract url clock (Suc idx) containers
      | Inr data \<Rightarrow>
          if truthy_name data
          then data\<lparr>source_url := Some url\<rparr>
                 # scrape_containers extract url clock (Suc idx) containers
          else scrape_containers extract url clock (Suc idx) containers)"

text \<open>
  \<open>fetched\<close> is the result of \<open>fetch_page\<close>: the parsed page, or \<open>None\<close> when the request
  failed.
\<close>

definition scrape_listing_page ::
    "unicode \<Rightarrow> (node \<Rightarrow> ustring) \<Rightarrow> (nat \<Rightarrow> ustring) \<Rightarrow> node option \<Rightarrow> ustring
       \<Rightarrow> product_data list" where
  "scrape_listing_page u render clock fetched url =
     (case fetched of
        None \<Rightarrow> []
      | Some soup \<Rightarrow>
          scrape_containers
            (\<lambda>now container. Inr (extract_product_data u render now container))
            url clock 1 (find_product_containers u soup))"

section \<open>Witness inputs\<close>

text \<open>
  A fragment of the Unicode database: the Arabic-Indic and the Devanagari digits, the
  no-break space, and the lower case of the ASCII letters and of the Kelvin sign.
\<close>

definition sample_unicode :: unicode where
  "sample_unicode =
     \<lparr>decimal_of =
        (\<lambda>c. if 0x660 \<le> c \<and> c \<le> 0x669 then Some (c - 0x660)
              else if 0x966 \<le> c \<and> c \<le> 0x96F then Some (c - 0x966)
              else None),
      white = (\<lambda>c. c = 0xA0),
      lowered =
        map (\<lambda>c. if 65 \<le> c \<and> c \<le> 90 then c + 32 else if c = 0x212A then 107 else c)\<rparr>"

definition h2_pattern :: pattern where
  "h2_pattern = \<lparr>p_tag = Some (cp ''h2''), p_attrs = []\<rparr>"

definition h3_pattern :: pattern where
  "h3_pattern = \<lparr>p_tag = Some (cp ''h3''), p_attrs = []\<rparr>"

definition h2_node :: node where
  "h2_node = Tag (cp ''h2'') [] [NavigableString (cp ''A'')]"

definition h3_node :: node where
  "h3_node = Tag (cp ''h3'') [] [NavigableString (cp ''B'')]"

text \<open>A container whose \<open>h3\<close> comes before its \<open>h2\<close> in document order.\<close>

definition two_headings :: node where
  "two_headings = Tag (cp ''div'') [] [h3_node, h2_node]"

text \<open>A page with a product tile before a product card.\<close>

definition card_node :: node where
  "card_node = Tag (cp ''div'') [(cp ''class'', Lst [cp ''product-card''])] []"

definition tile_node :: node where
  "tile_node = Tag (cp ''li'') [(cp ''class'', Lst [cp ''Product_Tile'', cp ''wide''])] []"

definition two_templates :: node where
  "two_templates = Tag (cp ''[document]'') [] [tile_node, card_node]"

text \<open>Containers of a listing, and a page that holds them.\<close>

definition span :: "string \<Rightarrow> string \<Rightarrow> node" where
  "span cls txt = Tag (cp ''span'') [(cp ''class'', Lst [cp cls])] [NavigableString (cp txt)]"

definition phone_heading :: node where
  "phone_heading = Tag (cp ''h2'') [] [NavigableString (cp ''Phone X'')]"

definition named_card :: node where
  "named_card = Tag (cp ''div'') [(cp ''class'', Lst [cp ''product-card''])]
     [phone_heading, span ''price'' ''800'', span ''mrp'' ''1,000'']"

text \<open>A container whose current price is zero and whose list price is 100.\<close>

definition case_heading :: node where
  "case_heading = Tag (cp ''h2'') [] [NavigableString (cp ''Free case'')]"

definition free_card :: node where
  "free_card = Tag (cp ''div'') [(cp ''class'', Lst [cp ''product-card''])]
     [case_heading, span ''price'' ''0'', span ''mrp'' ''100'']"

definition blank_heading :: node where
  "blank_heading = Tag (cp ''h2'') [] [NavigableString (cp ''  '')]"

text \<open>The name element of this container is an \<open>h2\<close> with no visible text.\<close>

definition nameless_card :: node where
  "nameless_card = Tag (cp ''div'') [(cp ''class'', Lst [cp ''product-card''])]
     [blank_heading, Tag (cp ''h3'') [] [NavigableString (cp ''Real name'')]]"

definition broken_card :: node where
  "broken_card = Tag (cp ''div'') [(cp ''class'', Lst [cp ''product-card''])] []"

definition listing_page :: node where
  "listing_page = Tag (cp ''[document]'') [] [broken_card, nameless_card, named_card]"

definition markup_stub :: "node \<Rightarrow> ustring" where
  "markup_stub n =
     (case n of
        Tag name attrs children \<Rightarrow> cp ''<'' @ name @ cp ''>''
      | NavigableString s \<Rightarrow> s)"

text \<open>An extractor that raises on one container and is the record extractor elsewhere.\<close>

definition flaky_extract :: "ustring \<Rightarrow> node \<Rightarrow> error + product_data" where
  "flaky_extract now container =
     (if container = broken_card then Inl (Exception ''malformed container'')
      else Inr (extract_product_data sample_unicode markup_stub now container))"

definition named_record :: "ustring \<Rightarrow> product_data" where
  "named_record now =
     \<lparr>product_name = Some (cp ''Phone X''), current_price = Some (Finite 800),
      mrp = Some (Finite 1000), discount = Some (cp ''20.0%''), rating = None,
      availability = cp ''Unknown'', scrape_timestamp_utc = now, source_url = None\<rparr>"

text \<open>The record without its timestamp.\<close>

definition no_stamp :: "product_data \<Rightarrow> product_data" where
  "no_stamp data = data\<lparr>scrape_timestamp_utc := []\<rparr>"

text \<open>
  Availability texts and elements, and a serialisation of a tag: its name and its
  attributes, with the tokens of a multi-valued attribute joined by a space.
\<close>

definition mixed_stock_text :: ustring where
  "mixed_stock_text = cp ''In Stock online, Out of Stock in stores''"

definition cart_text :: ustring where
  "cart_text = cp ''Add to Cart''"

definition vague_text :: ustring where
  "vague_text = cp ''Ships soon''"

text \<open>\<open>IN STOCK\<close> written with the Kelvin sign U+212A, which lowers to \<open>k\<close>.\<close>

definition kelvin_text :: ustring where
  "kelvin_text = cp ''IN STOC'' @ [0x212A]"

definition attr_markup :: "ustring \<times> attr_value \<Rightarrow> ustring" where
  "attr_markup a =
     (case a of
        (k, Str s) \<Rightarrow> cp '' '' @ k @ cp ''='' @ [dquote] @ s @ [dquote]
      | (k, Lst xs) \<Rightarrow> cp '' '' @ k @ cp ''='' @ [dquote] @ join [blank] xs @ [dquote])"

definition tag_markup :: "node \<Rightarrow> ustring" where
  "tag_markup n =
     (case n of
        Tag name attrs children \<Rightarrow>
          cp ''<'' @ name @ concat (map attr_markup attrs) @ cp ''>''
      | NavigableString s \<Rightarrow> s)"

definition soldout_badge :: node where
  "soldout_badge = Tag (cp ''span'') [(cp ''class'', Lst [cp ''badge'', cp ''SoldOut''])] []"

definition instock_badge :: node where
  "instock_badge = Tag (cp ''div'') [(cp ''class'', Lst [cp ''in-stock''])] []"

text \<open>
  The remainder of a price text in the words of the specification: every character
  but digits, \<open>.\<close> and \<open>,\<close> is stripped, then every \<open>,\<close> is removed.
\<close>

definition spec_price_remainder :: "unicode \<Rightarrow> ustring \<Rightarrow> ustring" where
  "spec_price_remainder u t =
     filter (\<lambda>c. c \<noteq> comma)
       (filter (\<lambda>c. is_digit u c \<or> c = dot \<or> c = comma) t)"

text \<open>No code point is both whitespace and a decimal digit.\<close>

definition consistent :: "unicode \<Rightarrow> bool" where
  "consistent u = (\<forall>c. is_space u c \<longrightarrow> \<not> is_digit u c)"

text \<open>Price and rating texts in Devanagari and Arabic-Indic digits.\<close>

definition devanagari_price :: ustring where
  "devanagari_price = [0xA0, 0x20B9, 0x967, 0x968, comma, 0x96F, 0x96F, 0x96F]"

definition devanagari_rating :: ustring where
  "devanagari_rating = cp ''Rated '' @ [0x96A, dot, 0x96B]"

definition arabic_rating :: ustring where
  "arabic_rating = [0x667] @ cp '' out of 5''"

section \<open>Properties of the tree search\<close>



lemma find_all_empty_iff:
  "find_all u c p = [] \<longleftrightarrow> (\<forall>d\<in>set (descendants c). \<not> search_tag u p d)"
  by (simp add: find_all_def filter_empty_conv)

lemma find_elem_None_iff:
  "find_elem u c p = None \<longleftrightarrow> (\<forall>d\<in>set (descendants c). \<not> search_tag u p d)"
  by (simp add: find_elem_def find_all_empty_iff [symmetric] split: list.splits)

lemma find_elem_SomeD:
  assumes "find_elem u c p = Some e"
  shows "\<exists>pre post. descendants c = pre @ e # post \<and> search_tag u p e
           \<and> (\<forall>d\<in>set pre. \<not> search_tag u p d)"
proof -
  from assms obtain rest where "filter (search_tag u p) (descendants c) = e # rest"
    by (auto simp: find_elem_def find_all_def split: list.splits)
  then show ?thesis
    unfolding filter_eq_Cons_iff by blast
qed

lemma febp_None_iff:
  "find_element_by_patterns u c ps = None
     \<longleftrightarrow> (\<forall>p\<in>set ps. \<forall>d\<in>set (descendants c). \<not> search_tag u p d)"
proof (induction ps)
  case Nil
  then show ?case by simp
next
  case (Cons a ps)
  show ?case
  proof (cases "find_elem u c a")
    case None
    then have "\<forall>d\<in>set (descendants c). \<not> search_tag u a d"
      using find_elem_None_iff [of u c a] by simp
    with None Cons.IH show ?thesis by simp
  next
    case (Some x)
    then have "\<not> (\<forall>d\<in>set (descendants c). \<not> search_tag u a d)"
      using find_elem_None_iff [of u c a] by simp
    with Some show ?thesis by simp
  qed
qed

lemma febp_SomeD:
  "find_element_by_patterns u c ps = Some e \<Longrightarrow>
     \<exists>before p after. ps = before @ p # after
        \<and> (\<forall>q\<in>set before. find_elem u c q = None) \<and> find_elem u c p = Some e"
proof (induction ps)
  case Nil
  then show ?case by simp
next
  case (Cons a ps)
  show ?case
  proof (cases "find_elem u c a")
    case None
    with Cons.prems have "find_element_by_patterns u c ps = Some e" by simp
    from Cons.IH [OF this] obtain before p after where
      "ps = before @ p # after" "\<forall>q\<in>set before. find_elem u c q = None" "find_elem u c p = Some e"
      by blast
    with None have "a # ps = (a # before) @ p # after
        \<and> (\<forall>q\<in>set (a # before). find_elem u c q = None) \<and> find_elem u c p = Some e"
      by simp
    then show ?thesis by blast
  next
    case (Some x)
    with Cons.prems have "x = e" by simp
    with Some have "a # ps = [] @ a # ps \<and> (\<forall>q\<in>set []. find_elem u c q = None)
        \<and> find_elem u c a = Some e" by simp
    then show ?thesis by blast
  qed
qed

lemma febp_skip:
  "\<forall>q\<in>set before. find_elem u c q = None \<Longrightarrow>
     find_element_by_patterns u c (before @ ps) = find_element_by_patterns u c ps"
  by (induction before) auto

section \<open>The pattern matcher returns the first success\<close>

text \<open>
  Claim C8. For every container and every ordered pattern list, the matcher returns
  \<open>None\<close> exactly when no pattern of the list matches any descendant of the
  container. When it returns an element, the list splits at a pattern \<open>p\<close> such that
  no earlier pattern matches any descendant, the element is the first descendant in
  document order that \<open>p\<close> matches, and the result is the same whatever patterns follow
  \<open>p\<close>: the patterns after the first success play no part.
\<close>

theorem pattern_matcher_first_success:
  "(find_element_by_patterns u c ps = None
      \<longleftrightarrow> (\<forall>p\<in>set ps. \<forall>d\<in>set (descendants c). \<not> search_tag u p d))
   \<and> (\<forall>e. find_element_by_patterns u c ps = Some e \<longrightarrow>
         (\<exists>before p after pre post.
             ps = before @ p # after
           \<and> (\<forall>q\<in>set before. \<forall>d\<in>set (descendants c). \<not> search_tag u q d)
           \<and> descendants c = pre @ e # post
           \<and> search_tag u p e
           \<and> (\<forall>d\<in>set pre. \<not> search_tag u p d)
           \<and> (\<forall>later. find_element_by_patterns u c (before @ p # later) = Some e)))"
proof (intro conjI allI impI)
  show "find_element_by_patterns u c ps = None
      \<longleftrightarrow> (\<forall>p\<in>set ps. \<forall>d\<in>set (descendants c). \<not> search_tag u p d)"
    by (rule febp_None_iff)
next
  fix e assume "find_element_by_patterns u c ps = Some e"
  from febp_SomeD [OF this] obtain before p after where
    ps: "ps = before @ p # after" and bf: "\<forall>q\<in>set before. find_elem u c q = None"
    and p: "find_elem u c p = Some e" by blast
  from find_elem_SomeD [OF p] obtain pre post where
    d: "descendants c = pre @ e # post" "search_tag u p e" "\<forall>d\<in>set pre. \<not> search_tag u p d"
    by blast
  have later: "\<forall>later. find_element_by_patterns u c (before @ p # later) = Some e"
    using febp_skip [OF bf] p by simp
  from bf have "\<forall>q\<in>set before. \<forall>d\<in>set (descendants c). \<not> search_tag u q d"
    by (simp add: find_elem_None_iff)
  with ps d later show "\<exists>before p after pre post.
             ps = before @ p # after
           \<and> (\<forall>q\<in>set before. \<forall>d\<in>set (descendants c). \<not> search_tag u q d)
           \<and> descendants c = pre @ e # post
           \<and> search_tag u p e
           \<and> (\<forall>d\<in>set pre. \<not> search_tag u p d)
           \<and> (\<forall>later. find_element_by_patterns u c (before @ p # later) = Some e)"
    by blast
qed

theorem pattern_matcher_first_success_witness:
  "find_element_by_patterns sample_unicode two_headings [h2_pattern, h3_pattern] = Some h2_node
   \<and> (\<exists>before p after pre post.
         [h2_pattern, h3_pattern] = before @ p # after
       \<and> (\<forall>q\<in>set before. \<forall>d\<in>set (descendants two_headings). \<not> search_tag sample_unicode q d)
       \<and> descendants two_headings = pre @ h2_node # post
       \<and> search_tag sample_unicode p h2_node
       \<and> (\<forall>d\<in>set pre. \<not> search_tag sample_unicode p d)
       \<and> (\<forall>later. find_element_by_patterns sample_unicode two_headings (before @ p # later) = Some h2_node))"
proof -
  have h: "find_element_by_patterns sample_unicode two_headings [h2_pattern, h3_pattern] = Some h2_node"
    by code_simp
  with pattern_matcher_first_success [of sample_unicode two_headings "[h2_pattern, h3_pattern]"]
  show ?thesis by blast
qed

section \<open>The container locator: the first matching pattern wins\<close>

lemma first_found_skip:
  "\<forall>q\<in>set before. find_all u soup q = [] \<Longrightarrow>
     first_found u soup (before @ ps) = first_found u soup ps"
  by (induction before) auto

lemma first_found_none:
  "\<forall>q\<in>set ps. find_all u soup q = [] \<Longrightarrow> first_found u soup ps = []"
  by (induction ps) auto

text \<open>
  Claim C3. For every document, the container patterns are tried in their fixed order.
  When the list splits at a pattern \<open>p\<close> such that no earlier pattern matches any node
  of the document and \<open>p\<close> matches at least one, the result is exactly the nodes that
  \<open>p\<close> matches, in document order: nodes that only a later pattern matches are not in
  it. When no pattern matches any node, the result is the empty sequence.
\<close>

theorem container_locator_first_match_wins:
  "(\<forall>before p after.
       container_patterns = before @ p # after
       \<and> (\<forall>q\<in>set before. \<forall>d\<in>set (descendants soup). \<not> search_tag u q d)
       \<and> (\<exists>d\<in>set (descendants soup). search_tag u p d)
       \<longrightarrow> find_product_containers u soup = filter (search_tag u p) (descendants soup))
   \<and> ((\<forall>p\<in>set container_patterns. \<forall>d\<in>set (descendants soup). \<not> search_tag u p d)
       \<longrightarrow> find_product_containers u soup = [])"
proof (intro conjI allI impI)
  fix before p after
  assume a: "container_patterns = before @ p # after
       \<and> (\<forall>q\<in>set before. \<forall>d\<in>set (descendants soup). \<not> search_tag u q d)
       \<and> (\<exists>d\<in>set (descendants soup). search_tag u p d)"
  then have bf: "\<forall>q\<in>set before. find_all u soup q = []"
    by (simp add: find_all_empty_iff)
  from a have p: "find_all u soup p \<noteq> []"
    by (simp add: find_all_empty_iff)
  from a have cp: "container_patterns = before @ p # after" by simp
  have "find_product_containers u soup = first_found u soup (before @ p # after)"
    unfolding find_product_containers_def cp ..
  also have "\<dots> = first_found u soup (p # after)"
    by (rule first_found_skip [OF bf])
  also have "\<dots> = find_all u soup p"
    using p by (simp add: Let_def)
  finally show "find_product_containers u soup = filter (search_tag u p) (descendants soup)"
    by (simp add: find_all_def)
next
  assume "\<forall>p\<in>set container_patterns. \<forall>d\<in>set (descendants soup). \<not> search_tag u p d"
  then have "\<forall>p\<in>set container_patterns. find_all u soup p = []"
    by (simp add: find_all_empty_iff)
  then show "find_product_containers u soup = []"
    unfolding find_product_containers_def by (rule first_found_none)
qed

lemma card_matches: "search_tag u (hd container_patterns) card_node"
  by code_simp

lemma tile_no_match: "\<not> search_tag u (hd container_patterns) tile_node"
  by code_simp

lemma tile_matches_third: "search_tag u (container_patterns ! 2) tile_node"
  by code_simp

theorem container_locator_first_match_wins_witness:
  "find_product_containers sample_unicode two_templates = [card_node]
   \<and> tile_node \<in> set (descendants two_templates)
   \<and> search_tag sample_unicode (container_patterns ! 2) tile_node"
proof -
  have split: "container_patterns = [] @ hd container_patterns # tl container_patterns"
    by (simp add: container_patterns_def)
  have d: "descendants two_templates = [tile_node, card_node]"
    by (simp add: two_templates_def tile_node_def card_node_def)
  have ex: "\<exists>d\<in>set (descendants two_templates). search_tag sample_unicode (hd container_patterns) d"
    using card_matches d by simp
  have "find_product_containers sample_unicode two_templates
          = filter (search_tag sample_unicode (hd container_patterns)) (descendants two_templates)"
    using container_locator_first_match_wins [where u = sample_unicode and soup = two_templates] split ex
    by (metis empty_iff list.set(1))
  then show ?thesis
    using d card_matches tile_no_match tile_matches_third by simp
qed


section \<open>Literals\<close>

lemma cp_Nil [simp]: "cp [] = []"
  by (simp add: cp_def)

lemma cp_nonempty [simp]: "cp (c # cs) \<noteq> []"
  by (simp add: cp_def)

section \<open>Rounding to doubles\<close>

lemma floor_numeral_div:
  "\<lfloor>(numeral a :: rat) / numeral b\<rfloor> = numeral a div numeral b"
  by (metis floor_divide_of_int_eq of_int_numeral)

lemma ceiling_numeral_div:
  "\<lceil>(numeral a :: rat) / numeral b\<rceil> = - ((- numeral a) div numeral b)"
  by (metis ceiling_def floor_divide_of_int_eq of_int_numeral of_int_minus minus_divide_left)

lemmas double_eval =
  to_double_def floor_log2_def pow2_def round_half_even_def bit_length.simps Let_def
  floor_numeral_div ceiling_numeral_div

lemma bit_length_nonneg: "0 \<le> bit_length n"
  by (induction n rule: bit_length.induct) (simp add: bit_length.simps)

lemma bit_length_bound: "n < 2 ^ k \<Longrightarrow> bit_length n \<le> int k"
proof (induction k arbitrary: n)
  case 0
  then show ?case by (simp add: bit_length.simps)
next
  case (Suc k)
  show ?case
  proof (cases "n \<le> 0")
    case True
    then show ?thesis by (simp add: bit_length.simps)
  next
    case False
    from Suc.prems have "n div 2 < 2 ^ k" by simp
    from Suc.IH [OF this] False show ?thesis
      by (subst bit_length.simps) simp
  qed
qed

lemma round_half_even_int: "round_half_even (of_int m) = m"
  by (simp add: round_half_even_def)

lemma round_half_even_near: "\<bar>of_int (round_half_even x) - x\<bar> \<le> 1 / 2"
proof -
  define f where "f = rat_of_int \<lfloor>x\<rfloor>"
  have a: "f \<le> x" "x < f + 1"
    unfolding f_def by linarith+
  have "\<bar>(if x - f < 1 / 2 then f else if 1 / 2 < x - f then f + 1
            else if even \<lfloor>x\<rfloor> then f else f + 1) - x\<bar> \<le> 1 / 2"
    using a by (simp add: abs_if)
  then show ?thesis
    by (simp add: round_half_even_def Let_def f_def if_distrib [of of_int] cong: if_cong)
qed

lemma pow2_nonpos: "e \<le> 0 \<Longrightarrow> pow2 e = 1 / 2 ^ nat (- e)"
  by (cases "e = 0") (simp_all add: pow2_def)

lemma to_double_int:
  assumes "0 < n" "n < 2 ^ 53"
  shows "to_double (of_int n) = Finite (of_int n)"
proof -
  define e where "e = bit_length n - 1"
  define k where "k = nat (52 - e)"
  have e: "- 1 \<le> e" "e \<le> 52"
    using bit_length_nonneg [of n] bit_length_bound [OF assms(2)] by (simp_all add: e_def)
  have fl: "floor_log2 \<bar>of_int n\<bar> = e"
    using assms(1) by (simp add: floor_log2_def e_def)
  have mx: "max e (- 1022) - 52 = - int k"
    using e by (simp add: k_def)
  have ulp: "pow2 (max (floor_log2 \<bar>of_int n\<bar>) (- 1022) - 52) = 1 / 2 ^ k"
    unfolding fl mx using pow2_nonpos [of "- int k"] by simp
  have q: "\<bar>rat_of_int n\<bar> / (1 / 2 ^ k) = of_int (n * 2 ^ k)"
    using assms(1) by simp
  have r: "of_int (round_half_even (\<bar>rat_of_int n\<bar> / (1 / 2 ^ k))) * (1 / 2 ^ k) = rat_of_int n"
    unfolding q round_half_even_int by simp
  have "rat_of_int n < 2 ^ 1024"
  proof -
    have "rat_of_int n < 2 ^ 53" using assms(2) by (metis of_int_less_numeral_power_cancel_iff)
    also have "\<dots> \<le> 2 ^ 1024" by (rule power_increasing) simp_all
    finally show ?thesis .
  qed
  with assms(1) show ?thesis
    unfolding to_double_def Let_def ulp r by simp
qed

lemma to_double_numeral:
  "numeral k < (2 :: int) ^ 53 \<Longrightarrow> to_double (numeral k) = Finite (numeral k)"
  using to_double_int [of "numeral k"] by simp

lemma to_double_zero: "to_double 0 = Finite 0"
  by (simp add: to_double_def)

lemma to_double_one: "to_double 1 = Finite 1"
  using to_double_int [of 1] by simp

lemmas price_eval =
  extract_price_def falsy_def cp_def strip_def is_space_def is_digit_def digit_value_def
  py_float_def decimal_def Let_def to_double_numeral to_double_zero

section \<open>Evaluation of the witness containers\<close>

lemma empty_text_fields:
  "extract_price u (Some []) = None"
  "extract_discount u (Some []) = None"
  "extract_rating u (Some []) = None"
  "determine_availability u render None (Some []) = cp ''Unknown''"
  by (simp_all add: extract_price_def extract_discount_def extract_rating_def
        determine_availability_def falsy_def)

lemma named_card_elems:
  "find_element_by_patterns u named_card name_patterns = Some phone_heading"
  "find_element_by_patterns u named_card current_price_patterns = Some (span ''price'' ''800'')"
  "find_element_by_patterns u named_card mrp_patterns = Some (span ''mrp'' ''1,000'')"
  "find_element_by_patterns u named_card discount_patterns = None"
  "find_element_by_patterns u named_card rating_patterns = None"
  "find_element_by_patterns u named_card availability_patterns = None"
  by code_simp+

lemma named_card_texts:
  "get_text u phone_heading = cp ''Phone X''"
  "get_text u (span ''price'' ''800'') = cp ''800''"
  "get_text u (span ''mrp'' ''1,000'') = cp ''1,000''"
  by code_simp+

lemma named_card_prices:
  "extract_price u (Some (cp ''800'')) = Some (Finite 800)"
  "extract_price u (Some (cp ''1,000'')) = Some (Finite 1000)"
  by (simp_all add: price_eval)

lemma named_card_discount:
  "format_1f (f_mul (f_div (f_sub (Finite 1000) (Finite 800)) (Finite 1000)) (Finite 100))
     @ [percent] = cp ''20.0%''"
proof -
  have 1: "f_sub (Finite 1000) (Finite 800) = Finite 200"
    by (simp add: to_double_numeral)
  have 2: "f_div (Finite 200) (Finite 1000) = Finite (3602879701896397 / 18014398509481984)"
    by (simp add: double_eval)
  have 3: "f_mul (Finite (3602879701896397 / 18014398509481984)) (Finite 100) = Finite 20"
    by (simp add: double_eval)
  have 4: "format_1f (Finite 20) @ [percent] = cp ''20.0%''"
    by (simp add: format_1f_def round_half_even_def digit_char_def cp_def)
  show ?thesis
    unfolding 1 2 3 4 ..
qed

lemma named_card_data:
  "extract_product_data u render now named_card = named_record now"
  by (simp add: extract_product_data_def Let_def named_card_elems named_card_texts
        named_card_prices empty_text_fields safe_get_text_def truthy_num_def named_card_discount
        named_record_def
      del: f_sub.simps f_div.simps f_mul.simps)

lemma cards_distinct: "nameless_card \<noteq> broken_card" "named_card \<noteq> broken_card"
  by (simp_all add: nameless_card_def broken_card_def named_card_def)

lemma nameless_card_name_elem:
  "find_element_by_patterns u nameless_card name_patterns = Some blank_heading"
  by code_simp

lemma blank_heading_text: "get_text u blank_heading = []"
  by code_simp

lemma no_name_elem_no_name:
  "safe_get_text u (find_element_by_patterns u c name_patterns) = []
     \<Longrightarrow> product_name (extract_product_data u render now c) = None"
  by (simp add: extract_product_data_def Let_def)

section \<open>The validity filter and failures of single containers\<close>

lemma scrape_containers_append:
  "scrape_containers extract url clock idx (cs1 @ cs2)
     = scrape_containers extract url clock idx cs1
       @ scrape_containers extract url clock (idx + length cs1) cs2"
  by (induction cs1 arbitrary: idx) (auto split: sum.splits)

lemma scrape_containers_named:
  "r \<in> set (scrape_containers extract url clock idx cs)
     \<Longrightarrow> \<exists>n. product_name r = Some n \<and> n \<noteq> []"
proof (induction cs arbitrary: idx)
  case Nil
  then show ?case by simp
next
  case (Cons c cs)
  then show ?case
    by (auto simp: truthy_name_def split: sum.splits if_splits option.splits)
qed

text \<open>
  Claim C9. For every extractor (the record extractor, or one that raises on some
  containers), every clock and every container sequence: a container whose extraction
  raises, or whose record has no product name, adds no record, and the containers
  before and after it are extracted as if it were not there; a container whose record
  has a non-empty name adds that record, stamped with the source url. Every record of
  the loop, and so every record that \<open>scrape_listing_page\<close> returns, has a present,
  non-empty product name.
\<close>

theorem listing_skips_invalid_containers:
  "(\<forall>cs1 c cs2.
      ((\<exists>e. extractor (clock (idx + length cs1)) c = Inl e)
       \<or> (\<exists>d. extractor (clock (idx + length cs1)) c = Inr d \<and> product_name d = None))
      \<longrightarrow> scrape_containers extractor url clock idx (cs1 @ c # cs2)
            = scrape_containers extractor url clock idx cs1
              @ scrape_containers extractor url clock (Suc (idx + length cs1)) cs2)
   \<and> (\<forall>cs1 c cs2 d n.
      extractor (clock (idx + length cs1)) c = Inr d \<and> product_name d = Some n \<and> n \<noteq> []
      \<longrightarrow> scrape_containers extractor url clock idx (cs1 @ c # cs2)
            = scrape_containers extractor url clock idx cs1
              @ d\<lparr>source_url := Some url\<rparr>
              # scrape_containers extractor url clock (Suc (idx + length cs1)) cs2)
   \<and> (\<forall>r\<in>set (scrape_containers extractor url clock idx cs).
         \<exists>n. product_name r = Some n \<and> n \<noteq> [])
   \<and> (\<forall>r\<in>set (scrape_listing_page u render clock fetched url).
         \<exists>n. product_name r = Some n \<and> n \<noteq> [])"
proof (intro conjI allI impI ballI)
  fix cs1 :: "node list" and c :: node and cs2 :: "node list"
  assume "(\<exists>e. extractor (clock (idx + length cs1)) c = Inl e)
       \<or> (\<exists>d. extractor (clock (idx + length cs1)) c = Inr d \<and> product_name d = None)"
  then have "scrape_containers extractor url clock (idx + length cs1) (c # cs2)
               = scrape_containers extractor url clock (Suc (idx + length cs1)) cs2"
    by (auto simp: truthy_name_def)
  then show "scrape_containers extractor url clock idx (cs1 @ c # cs2)
            = scrape_containers extractor url clock idx cs1
              @ scrape_containers extractor url clock (Suc (idx + length cs1)) cs2"
    by (simp add: scrape_containers_append)
next
  fix cs1 :: "node list" and c :: node and cs2 :: "node list" and d :: product_data
    and n :: ustring
  assume "extractor (clock (idx + length cs1)) c = Inr d \<and> product_name d = Some n \<and> n \<noteq> []"
  then have "scrape_containers extractor url clock (idx + length cs1) (c # cs2)
               = d\<lparr>source_url := Some url\<rparr>
                 # scrape_containers extractor url clock (Suc (idx + length cs1)) cs2"
    by (simp add: truthy_name_def)
  then show "scrape_containers extractor url clock idx (cs1 @ c # cs2)
            = scrape_containers extractor url clock idx cs1
              @ d\<lparr>source_url := Some url\<rparr>
              # scrape_containers extractor url clock (Suc (idx + length cs1)) cs2"
    by (simp add: scrape_containers_append)
next
  fix r assume "r \<in> set (scrape_containers extractor url clock idx cs)"
  then show "\<exists>n. product_name r = Some n \<and> n \<noteq> []"
    by (rule scrape_containers_named)
next
  fix r assume "r \<in> set (scrape_listing_page u render clock fetched url)"
  then show "\<exists>n. product_name r = Some n \<and> n \<noteq> []"
    by (cases fetched) (auto simp: scrape_listing_page_def dest: scrape_containers_named)
qed

theorem listing_skips_invalid_containers_witness:
  "scrape_containers flaky_extract (cp ''u'') (\<lambda>i. cp ''t'') 1
       ([] @ broken_card # [nameless_card, named_card])
     = [(named_record (cp ''t''))\<lparr>source_url := Some (cp ''u'')\<rparr>]
   \<and> flaky_extract (cp ''t'') broken_card = Inl (Exception ''malformed container'')
   \<and> product_name ((named_record (cp ''t''))\<lparr>source_url := Some (cp ''u'')\<rparr>) = Some (cp ''Phone X'')"
proof -
  have b: "flaky_extract (cp ''t'') broken_card = Inl (Exception ''malformed container'')"
    by (simp add: flaky_extract_def)
  have n: "\<exists>d. flaky_extract (cp ''t'') nameless_card = Inr d \<and> product_name d = None"
    by (simp add: flaky_extract_def cards_distinct no_name_elem_no_name
          nameless_card_name_elem safe_get_text_def blank_heading_text)
  have g: "flaky_extract (cp ''t'') named_card = Inr (named_record (cp ''t''))"
    by (simp add: flaky_extract_def cards_distinct named_card_data)
  have 1: "scrape_containers flaky_extract (cp ''u'') (\<lambda>i. cp ''t'') 1
             ([] @ broken_card # [nameless_card, named_card])
           = scrape_containers flaky_extract (cp ''u'') (\<lambda>i. cp ''t'') 1 []
             @ scrape_containers flaky_extract (cp ''u'') (\<lambda>i. cp ''t'')
                 (Suc (1 + length ([] :: node list))) [nameless_card, named_card]"
    using listing_skips_invalid_containers
            [where extractor = flaky_extract and clock = "\<lambda>i. cp ''t''" and idx = "1"
               and url = "cp ''u''" and cs = "[]" and render = markup_stub and fetched = None
               and u = sample_unicode] b
    by (metis list.size(1) add_0_right)
  have 2: "scrape_containers flaky_extract (cp ''u'') (\<lambda>i. cp ''t'') k [nameless_card, named_card]
             = [(named_record (cp ''t''))\<lparr>source_url := Some (cp ''u'')\<rparr>]" for k
    using n g by (auto simp: truthy_name_def named_record_def)
  show ?thesis
    unfolding 1 2 using b by (simp add: named_record_def)
qed

section \<open>A name element without visible text\<close>

lemma product_name_of_text:
  "product_name (extract_product_data u render now c)
     = (if safe_get_text u (find_element_by_patterns u c name_patterns) = [] then None
        else Some (safe_get_text u (find_element_by_patterns u c name_patterns)))"
  by (simp add: extract_product_data_def Let_def)

text \<open>
  Claim C10. For every container whose located name element has the empty string as
  its visible text, the record extractor sets \<open>product_name\<close> to \<open>None\<close>, and the
  listing loop drops the record and goes on with the next container. The same holds
  when no name pattern matches at all, so the two cases are treated alike.
\<close>

theorem empty_name_text_is_absent:
  "(find_element_by_patterns u c name_patterns = Some e \<and> get_text u e = []
      \<longrightarrow> product_name (extract_product_data u render now c) = None
          \<and> scrape_containers (\<lambda>now container. Inr (extract_product_data u render now container))
                url clock idx (c # cs)
              = scrape_containers (\<lambda>now container. Inr (extract_product_data u render now container))
                  url clock (Suc idx) cs)
   \<and> (find_element_by_patterns u c name_patterns = None
      \<longrightarrow> product_name (extract_product_data u render now c) = None
          \<and> scrape_containers (\<lambda>now container. Inr (extract_product_data u render now container))
                url clock idx (c # cs)
              = scrape_containers (\<lambda>now container. Inr (extract_product_data u render now container))
                  url clock (Suc idx) cs)"
  by (simp add: product_name_of_text safe_get_text_def truthy_name_def)

theorem empty_name_text_is_absent_witness:
  "find_element_by_patterns sample_unicode nameless_card name_patterns = Some blank_heading
   \<and> get_text sample_unicode blank_heading = []
   \<and> product_name (extract_product_data sample_unicode markup_stub (cp ''t'') nameless_card) = None
   \<and> scrape_containers (\<lambda>now container. Inr (extract_product_data sample_unicode markup_stub now container))
         (cp ''u'') (\<lambda>i. cp ''t'') 1 (nameless_card # [named_card])
       = [(named_record (cp ''t''))\<lparr>source_url := Some (cp ''u'')\<rparr>]"
proof -
  have h: "find_element_by_patterns sample_unicode nameless_card name_patterns = Some blank_heading
             \<and> get_text sample_unicode blank_heading = []"
    by (simp add: nameless_card_name_elem blank_heading_text)
  have r: "scrape_containers (\<lambda>now container. Inr (extract_product_data sample_unicode markup_stub now container))
             (cp ''u'') (\<lambda>i. cp ''t'') (Suc 1) [named_card]
           = [(named_record (cp ''t''))\<lparr>source_url := Some (cp ''u'')\<rparr>]"
    by (simp add: named_card_data truthy_name_def named_record_def)
  from empty_name_text_is_absent
         [where u = sample_unicode and c = nameless_card and e = blank_heading
            and render = markup_stub
            and now = "cp ''t''" and url = "cp ''u''" and clock = "\<lambda>i. cp ''t''" and idx = "1"
            and cs = "[named_card]"] h r
  show ?thesis by simp
qed

section \<open>Determinism of the listing extraction\<close>

lemma extract_product_data_stamp:
  "no_stamp (extract_product_data u render now c) = no_stamp (extract_product_data u render now' c)"
  by (simp add: extract_product_data_def Let_def no_stamp_def)

lemma truthy_name_stamp:
  "truthy_name (extract_product_data u render now c)
     = truthy_name (extract_product_data u render now' c)"
  by (simp add: extract_product_data_def Let_def truthy_name_def)

lemma no_stamp_source_url:
  "no_stamp (data\<lparr>source_url := u\<rparr>) = (no_stamp data)\<lparr>source_url := u\<rparr>"
  by (simp add: no_stamp_def)

lemma scrape_containers_stamp:
  "map no_stamp
     (scrape_containers (\<lambda>now container. Inr (extract_product_data u render now container))
        url clock1 idx cs)
   = map no_stamp
     (scrape_containers (\<lambda>now container. Inr (extract_product_data u render now container))
        url clock2 idx cs)"
proof (induction cs arbitrary: idx)
  case Nil
  show ?case by simp
next
  case (Cons c cs)
  have t: "truthy_name (extract_product_data u render (clock1 idx) c)
             = truthy_name (extract_product_data u render (clock2 idx) c)"
    by (rule truthy_name_stamp)
  have s: "no_stamp (extract_product_data u render (clock1 idx) c)
             = no_stamp (extract_product_data u render (clock2 idx) c)"
    by (rule extract_product_data_stamp)
  show ?case
    using Cons.IH [of "Suc idx"] t s by (simp add: no_stamp_source_url)
qed

lemma listing_page_containers:
  "find_product_containers u listing_page = [broken_card, nameless_card, named_card]"
  by code_simp

lemma broken_card_name: "find_element_by_patterns u broken_card name_patterns = None"
  by code_simp

lemma listing_page_records:
  "scrape_listing_page u render clock (Some listing_page) url
     = [(named_record (clock 3))\<lparr>source_url := Some url\<rparr>]"
  by (simp add: scrape_listing_page_def listing_page_containers product_name_of_text
        truthy_name_def broken_card_name nameless_card_name_elem blank_heading_text
        safe_get_text_def named_card_data named_record_def eval_nat_numeral)

text \<open>
  Claim C1. For every fetched document and source url, two runs of the listing
  extraction, each with its own clock, return the same sequence of records, field for
  field, once the timestamp field is blanked.
\<close>

theorem listing_extraction_deterministic:
  "map no_stamp (scrape_listing_page u render clock1 fetched url)
     = map no_stamp (scrape_listing_page u render clock2 fetched url)"
  by (cases fetched) (simp_all add: scrape_listing_page_def scrape_containers_stamp)

theorem listing_extraction_deterministic_witness:
  "map no_stamp (scrape_listing_page sample_unicode markup_stub (\<lambda>i. cp ''09:00'') (Some listing_page) (cp ''u''))
     = map no_stamp (scrape_listing_page sample_unicode markup_stub (\<lambda>i. cp ''17:30'') (Some listing_page) (cp ''u''))
   \<and> scrape_listing_page sample_unicode markup_stub (\<lambda>i. cp ''09:00'') (Some listing_page) (cp ''u'')
       \<noteq> scrape_listing_page sample_unicode markup_stub (\<lambda>i. cp ''17:30'') (Some listing_page) (cp ''u'')
   \<and> length (scrape_listing_page sample_unicode markup_stub (\<lambda>i. cp ''09:00'') (Some listing_page) (cp ''u'')) = 1"
  using listing_extraction_deterministic
          [of sample_unicode markup_stub "\<lambda>i. cp ''09:00''" "Some listing_page" "cp ''u''"
             "\<lambda>i. cp ''17:30''"]
  by (simp add: listing_page_records named_record_def cp_def)

section \<open>The derived discount and a current price of zero\<close>

lemma free_card_elems:
  "find_element_by_patterns u free_card name_patterns = Some case_heading"
  "find_element_by_patterns u free_card current_price_patterns = Some (span ''price'' ''0'')"
  "find_element_by_patterns u free_card mrp_patterns = Some (span ''mrp'' ''100'')"
  "find_element_by_patterns u free_card discount_patterns = None"
  "find_element_by_patterns u free_card rating_patterns = None"
  "find_element_by_patterns u free_card availability_patterns = None"
  by code_simp+

lemma free_card_texts:
  "get_text u case_heading = cp ''Free case''"
  "get_text u (span ''price'' ''0'') = cp ''0''"
  "get_text u (span ''mrp'' ''100'') = cp ''100''"
  by code_simp+

lemma free_card_prices:
  "extract_price u (Some (cp ''0'')) = Some (Finite 0)"
  "extract_price u (Some (cp ''100'')) = Some (Finite 100)"
  by (simp_all add: price_eval)

text \<open>
  Claim C2. The derived discount is guarded by the truthiness of \<open>mrp\<close> and of
  \<open>current_price\<close>, not by their presence. In the container \<open>free_card\<close> no discount is
  extracted, the current price \<open>0\<close> and the list price \<open>100\<close> are both present and the
  list price is the greater one, yet the record keeps \<open>discount = None\<close>, where the rule
  of the claim gives \<open>100.0%\<close>.
\<close>

theorem zero_price_gets_no_derived_discount:
  "extract_product_data u render now free_card =
     \<lparr>product_name = Some (cp ''Free case''), current_price = Some (Finite 0),
      mrp = Some (Finite 100),
      discount = None, rating = None, availability = cp ''Unknown'',
      scrape_timestamp_utc = now, source_url = None\<rparr>"
  by (simp add: extract_product_data_def Let_def free_card_elems free_card_texts
        free_card_prices empty_text_fields safe_get_text_def truthy_num_def)


section \<open>The availability classifier\<close>

lemma any_pattern_in_iff:
  "any_pattern_in patterns s \<longleftrightarrow> (\<exists>p\<in>set patterns. sublist p s)"
  by (induction patterns) auto

lemma search_text_eq:
  "search_text u render element txt
     = (if falsy txt then [] else lower u (the txt))
       @ (case element of None \<Rightarrow> [] | Some e \<Rightarrow> [blank] @ lower u (render e))"
  by (simp add: search_text_def Let_def split: option.splits)

lemma sublist_embed:
  assumes "sublist p ys"
  shows "sublist p (pre @ ys @ post)"
proof -
  from assms obtain ps ss where "ys = ps @ p @ ss"
    by (auto simp: sublist_def)
  then have "pre @ ys @ post = (pre @ ps) @ p @ (ss @ post)"
    by simp
  then show ?thesis
    unfolding sublist_def by blast
qed

lemma sublist_search_text_text:
  assumes "\<not> falsy txt" "sublist p (lower u (the txt))"
  shows "sublist p (search_text u render element txt)"
  using sublist_embed [OF assms(2), of "[]"] assms(1) by (simp add: search_text_eq)

lemma sublist_search_text_element:
  assumes "sublist p (lower u (render e))"
  shows "sublist p (search_text u render (Some e) txt)"
  using sublist_embed [OF assms, of "(if falsy txt then [] else lower u (the txt)) @ [blank]" "[]"]
  by (simp add: search_text_eq)

lemma out_of_stock_members:
  "cp ''out of stock'' \<in> set out_of_stock_patterns"
  by (simp add: out_of_stock_patterns_def)

lemma availability_texts:
  "sublist (cp ''in stock'') (lower sample_unicode mixed_stock_text)"
  "sublist (cp ''out of stock'') (lower sample_unicode mixed_stock_text)"
  "mixed_stock_text \<noteq> []"
  by code_simp+

lemma cart_text_hits:
  "(\<exists>p\<in>set out_of_stock_patterns.
      sublist p (search_text sample_unicode tag_markup None (Some cart_text))) = False"
  "(\<exists>p\<in>set in_stock_patterns.
      sublist p (search_text sample_unicode tag_markup None (Some cart_text))) = True"
  "falsy (Some cart_text) = False"
  unfolding any_pattern_in_iff [symmetric] by code_simp+

lemma vague_text_hits:
  "(\<exists>p\<in>set out_of_stock_patterns.
      sublist p (search_text sample_unicode tag_markup None (Some vague_text))) = False"
  "(\<exists>p\<in>set in_stock_patterns.
      sublist p (search_text sample_unicode tag_markup None (Some vague_text))) = False"
  unfolding any_pattern_in_iff [symmetric] by code_simp+

lemma kelvin_text_hits:
  "(\<exists>p\<in>set out_of_stock_patterns.
      sublist p (search_text sample_unicode tag_markup None (Some kelvin_text))) = False"
  "(\<exists>p\<in>set in_stock_patterns.
      sublist p (search_text sample_unicode tag_markup None (Some kelvin_text))) = True"
  "falsy (Some kelvin_text) = False"
  unfolding any_pattern_in_iff [symmetric] by code_simp+

lemma soldout_badge_hits:
  "lower sample_unicode (tag_markup soldout_badge)
     = cp ''<span class='' @ [dquote] @ cp ''badge soldout'' @ [dquote] @ cp ''>''"
  "sublist (cp ''soldout'') (lower sample_unicode (tag_markup soldout_badge))"
  "cp ''soldout'' \<in> set out_of_stock_patterns"
  by code_simp+

lemma instock_badge_hits:
  "(\<exists>p\<in>set out_of_stock_patterns.
      sublist p (search_text sample_unicode tag_markup (Some instock_badge) (Some vague_text)))
     = False"
  "(\<exists>p\<in>set in_stock_patterns.
      sublist p (search_text sample_unicode tag_markup (Some instock_badge) (Some vague_text)))
     = True"
  "(\<exists>p\<in>set in_stock_patterns. sublist p (lower sample_unicode vague_text)) = False"
  unfolding any_pattern_in_iff [symmetric] by code_simp+

text \<open>
  Claim C5. For every optional text and optional element, the classifier answers with
  one of the three strings \<open>In Stock\<close>, \<open>Out of Stock\<close>, \<open>Unknown\<close>. The search space is
  the lower-cased text (nothing when the text is absent or empty), followed, when the
  element is present, by a space and the lower-cased markup of the element. Unless
  both inputs are absent, a hit of any out-of-stock phrase in the search space gives
  \<open>Out of Stock\<close>, whatever else the search space holds; otherwise a hit of any
  in-stock phrase gives \<open>In Stock\<close>; no hit in either list gives \<open>Unknown\<close>, and so do
  two absent inputs. In particular an out-of-stock phrase in the markup of the element
  gives \<open>Out of Stock\<close> whatever the text is, and a text that holds both \<open>in stock\<close> and
  \<open>out of stock\<close> is classified \<open>Out of Stock\<close> whatever the element is.
\<close>

theorem availability_classifier_contract:
  "determine_availability u render element txt
     \<in> {cp ''In Stock'', cp ''Out of Stock'', cp ''Unknown''}
   \<and> search_text u render element txt
       = (if falsy txt then [] else lower u (the txt))
         @ (case element of None \<Rightarrow> [] | Some e \<Rightarrow> [blank] @ lower u (render e))
   \<and> ((\<exists>p\<in>set out_of_stock_patterns. sublist p (search_text u render element txt))
        \<and> \<not> (falsy txt \<and> element = None)
      \<longrightarrow> determine_availability u render element txt = cp ''Out of Stock'')
   \<and> (\<not> (\<exists>p\<in>set out_of_stock_patterns. sublist p (search_text u render element txt))
        \<and> (\<exists>p\<in>set in_stock_patterns. sublist p (search_text u render element txt))
        \<and> \<not> (falsy txt \<and> element = None)
      \<longrightarrow> determine_availability u render element txt = cp ''In Stock'')
   \<and> (\<not> (\<exists>p\<in>set out_of_stock_patterns. sublist p (search_text u render element txt))
        \<and> \<not> (\<exists>p\<in>set in_stock_patterns. sublist p (search_text u render element txt))
      \<longrightarrow> determine_availability u render element txt = cp ''Unknown'')
   \<and> (falsy txt \<and> element = None
      \<longrightarrow> determine_availability u render element txt = cp ''Unknown'')
   \<and> (\<forall>e p. element = Some e \<and> p \<in> set out_of_stock_patterns
              \<and> sublist p (lower u (render e))
      \<longrightarrow> determine_availability u render element txt = cp ''Out of Stock'')
   \<and> (\<forall>t. txt = Some t \<and> sublist (cp ''in stock'') (lower u t)
            \<and> sublist (cp ''out of stock'') (lower u t) \<and> t \<noteq> []
      \<longrightarrow> determine_availability u render element txt = cp ''Out of Stock'')"
proof (intro conjI allI impI)
  show "determine_availability u render element txt
          \<in> {cp ''In Stock'', cp ''Out of Stock'', cp ''Unknown''}"
    by (simp add: determine_availability_def)
next
  show "search_text u render element txt
       = (if falsy txt then [] else lower u (the txt))
         @ (case element of None \<Rightarrow> [] | Some e \<Rightarrow> [blank] @ lower u (render e))"
    by (rule search_text_eq)
next
  assume "(\<exists>p\<in>set out_of_stock_patterns. sublist p (search_text u render element txt))
        \<and> \<not> (falsy txt \<and> element = None)"
  then show "determine_availability u render element txt = cp ''Out of Stock''"
    by (auto simp: determine_availability_def any_pattern_in_iff)
next
  assume "\<not> (\<exists>p\<in>set out_of_stock_patterns. sublist p (search_text u render element txt))
        \<and> (\<exists>p\<in>set in_stock_patterns. sublist p (search_text u render element txt))
        \<and> \<not> (falsy txt \<and> element = None)"
  then show "determine_availability u render element txt = cp ''In Stock''"
    by (auto simp: determine_availability_def any_pattern_in_iff)
next
  assume "\<not> (\<exists>p\<in>set out_of_stock_patterns. sublist p (search_text u render element txt))
        \<and> \<not> (\<exists>p\<in>set in_stock_patterns. sublist p (search_text u render element txt))"
  then show "determine_availability u render element txt = cp ''Unknown''"
    by (simp add: determine_availability_def any_pattern_in_iff)
next
  assume "falsy txt \<and> element = None"
  then show "determine_availability u render element txt = cp ''Unknown''"
    by (simp add: determine_availability_def)
next
  fix e p
  assume a: "element = Some e \<and> p \<in> set out_of_stock_patterns
              \<and> sublist p (lower u (render e))"
  then have "sublist p (search_text u render element txt)"
    by (simp add: sublist_search_text_element)
  with a have "any_pattern_in out_of_stock_patterns (search_text u render element txt)"
    unfolding any_pattern_in_iff by blast
  with a show "determine_availability u render element txt = cp ''Out of Stock''"
    by (simp add: determine_availability_def)
next
  fix t
  assume a: "txt = Some t \<and> sublist (cp ''in stock'') (lower u t)
            \<and> sublist (cp ''out of stock'') (lower u t) \<and> t \<noteq> []"
  then have f: "\<not> falsy txt"
    by (simp add: falsy_def)
  with a have "sublist (cp ''out of stock'') (search_text u render element txt)"
    by (simp add: sublist_search_text_text)
  then have "any_pattern_in out_of_stock_patterns (search_text u render element txt)"
    unfolding any_pattern_in_iff using out_of_stock_members by blast
  with f show "determine_availability u render element txt = cp ''Out of Stock''"
    by (simp add: determine_availability_def)
qed

theorem availability_classifier_contract_witness:
  "determine_availability sample_unicode tag_markup None (Some mixed_stock_text)
     = cp ''Out of Stock''
   \<and> determine_availability sample_unicode tag_markup (Some soldout_badge) (Some [])
     = cp ''Out of Stock''
   \<and> lower sample_unicode (tag_markup soldout_badge)
     = cp ''<span class='' @ [dquote] @ cp ''badge soldout'' @ [dquote] @ cp ''>''
   \<and> determine_availability sample_unicode tag_markup (Some instock_badge) (Some vague_text)
     = cp ''In Stock''
   \<and> determine_availability sample_unicode tag_markup None (Some vague_text) = cp ''Unknown''
   \<and> determine_availability sample_unicode tag_markup None (Some cart_text) = cp ''In Stock''
   \<and> determine_availability sample_unicode tag_markup None (Some kelvin_text) = cp ''In Stock''
   \<and> determine_availability sample_unicode tag_markup None None = cp ''Unknown''"
proof -
  have 1: "determine_availability sample_unicode tag_markup None (Some mixed_stock_text)
             = cp ''Out of Stock''"
    using availability_classifier_contract
            [of sample_unicode tag_markup None "Some mixed_stock_text"]
          availability_texts
    by blast
  have 2: "determine_availability sample_unicode tag_markup (Some soldout_badge) (Some [])
             = cp ''Out of Stock''"
    using availability_classifier_contract
            [of sample_unicode tag_markup "Some soldout_badge" "Some []"]
          soldout_badge_hits(2,3)
    by blast
  have 3: "determine_availability sample_unicode tag_markup (Some instock_badge)
             (Some vague_text) = cp ''In Stock''"
    using availability_classifier_contract
            [of sample_unicode tag_markup "Some instock_badge" "Some vague_text"]
          instock_badge_hits(1,2)
    by blast
  have 4: "determine_availability sample_unicode tag_markup None (Some vague_text)
             = cp ''Unknown''"
    using availability_classifier_contract
            [of sample_unicode tag_markup None "Some vague_text"]
          vague_text_hits
    by blast
  have 5: "determine_availability sample_unicode tag_markup None (Some cart_text)
             = cp ''In Stock''"
    using availability_classifier_contract
            [of sample_unicode tag_markup None "Some cart_text"]
          cart_text_hits
    by blast
  have 6: "determine_availability sample_unicode tag_markup None (Some kelvin_text)
             = cp ''In Stock''"
    using availability_classifier_contract
            [of sample_unicode tag_markup None "Some kelvin_text"]
          kelvin_text_hits
    by blast
  have 7: "determine_availability sample_unicode tag_markup None None = cp ''Unknown''"
    using availability_classifier_contract [of sample_unicode tag_markup None None]
    by (simp add: falsy_def)
  from 1 2 3 4 5 6 7 soldout_badge_hits(1) show ?thesis by simp
qed

section \<open>The price normalizer\<close>

lemma filter_dropWhile_disjoint:
  "(\<And>c. Q c \<Longrightarrow> \<not> P c) \<Longrightarrow> filter P (dropWhile Q s) = filter P s"
  by (induction s) auto

lemma filter_strip:
  assumes "\<And>c. is_space u c \<Longrightarrow> \<not> P c"
  shows "filter P (strip u s) = filter P s"
proof -
  have "filter P (strip u s) = rev (filter P (dropWhile (is_space u) (rev (dropWhile (is_space u) s))))"
    by (simp add: strip_def rev_filter)
  also have "\<dots> = rev (filter P (rev (dropWhile (is_space u) s)))"
    using assms by (simp add: filter_dropWhile_disjoint)
  also have "\<dots> = filter P (dropWhile (is_space u) s)"
    by (simp add: rev_filter)
  also have "\<dots> = filter P s"
    using assms by (simp add: filter_dropWhile_disjoint)
  finally show ?thesis .
qed

lemma ascii_classes:
  "\<not> is_digit u dot" "\<not> is_digit u comma" "\<not> is_digit u percent"
  "\<not> is_space u dot" "\<not> is_space u comma" "\<not> is_space u percent"
  by (simp_all add: is_digit_def digit_value_def is_space_def)

lemma space_not_kept:
  "consistent u \<Longrightarrow> is_space u c \<Longrightarrow> \<not> (is_digit u c \<or> c = dot \<or> c = comma)"
  using ascii_classes [of u] by (auto simp: consistent_def)

text \<open>What is left of a price text: its digits and dots, in order.\<close>

lemma cleaned_eq:
  assumes "consistent u"
  shows "filter (\<lambda>c. c \<noteq> comma)
     (filter (\<lambda>c. is_digit u c \<or> c = dot \<or> c = comma) (strip u t))
   = filter (\<lambda>c. is_digit u c \<or> c = dot) t"
proof -
  have "filter (\<lambda>c. is_digit u c \<or> c = dot \<or> c = comma) (strip u t)
          = filter (\<lambda>c. is_digit u c \<or> c = dot \<or> c = comma) t"
    by (rule filter_strip) (rule space_not_kept [OF assms])
  moreover have "filter (\<lambda>c. c \<noteq> comma)
                   (filter (\<lambda>c. is_digit u c \<or> c = dot \<or> c = comma) t)
                 = filter (\<lambda>c. is_digit u c \<or> c = dot) t"
    by (induction t) (auto simp: ascii_classes)
  ultimately show ?thesis by simp
qed

lemma py_float_digits:
  assumes "list_all (is_digit u) ip" "ip \<noteq> []"
  shows "py_float u ip = Inr (to_double (of_nat (decimal u ip)))"
proof -
  from assms(1) have tw: "takeWhile (is_digit u) ip = ip" and dw: "dropWhile (is_digit u) ip = []"
    by (simp_all add: list_all_iff)
  show ?thesis
    using assms(2) by (simp add: py_float_def Let_def tw dw)
qed

lemma dot_not_digit: "\<not> is_digit u dot"
  by (rule ascii_classes)

lemma py_float_fraction:
  assumes "list_all (is_digit u) ip" "list_all (is_digit u) fp" "ip \<noteq> [] \<or> fp \<noteq> []"
  shows "py_float u (ip @ dot # fp)
           = Inr (to_double (of_nat (decimal u ip) + of_nat (decimal u fp) / 10 ^ length fp))"
proof -
  from assms(1) have tw: "takeWhile (is_digit u) (ip @ dot # fp) = ip"
    and dw: "dropWhile (is_digit u) (ip @ dot # fp) = dot # fp"
    by (simp_all add: list_all_iff dot_not_digit)
  show ?thesis
    using assms(2,3) by (auto simp add: py_float_def Let_def tw dw)
qed

lemma py_float_two_dots:
  assumes "2 \<le> length (filter (\<lambda>c. c = dot) s)"
  shows "py_float u s = Inl ValueError"
proof (cases "dropWhile (is_digit u) s")
  case Nil
  then have "takeWhile (is_digit u) s = s"
    by (metis append_Nil2 takeWhile_dropWhile_id)
  then have "\<forall>c\<in>set s. is_digit u c"
    by (metis set_takeWhileD)
  then have "filter (\<lambda>c. c = dot) s = []"
    by (auto simp: filter_empty_conv dot_not_digit)
  with assms show ?thesis by simp
next
  case (Cons c fp)
  have s: "s = takeWhile (is_digit u) s @ c # fp"
    using Cons by (metis takeWhile_dropWhile_id)
  have ip: "filter (\<lambda>c. c = dot) (takeWhile (is_digit u) s) = []"
    by (auto simp: filter_empty_conv dot_not_digit dest: set_takeWhileD)
  show ?thesis
  proof (cases "c = dot \<and> list_all (is_digit u) fp")
    case True
    then have "filter (\<lambda>c. c = dot) fp = []"
      by (auto simp: filter_empty_conv list_all_iff dot_not_digit)
    with ip True have "length (filter (\<lambda>c. c = dot) (takeWhile (is_digit u) s @ c # fp)) = 1"
      by simp
    with s assms show ?thesis by simp
  next
    case False
    with Cons show ?thesis by (auto simp: py_float_def)
  qed
qed


lemma spec_price_remainder_eq:
  "spec_price_remainder u t = filter (\<lambda>c. is_digit u c \<or> c = dot) t"
  unfolding spec_price_remainder_def by (induction t) (auto simp: ascii_classes)

lemma extract_price_eq:
  assumes "consistent u"
  shows "extract_price u (Some t) =
     (if spec_price_remainder u t = [] then None
      else case py_float u (spec_price_remainder u t) of Inr v \<Rightarrow> Some v | Inl e \<Rightarrow> None)"
  unfolding extract_price_def Let_def option.sel cleaned_eq [OF assms] spec_price_remainder_eq
  by (cases "t = []") (simp_all add: falsy_def)

lemma remainder_dots:
  "filter (\<lambda>c. c = dot) (spec_price_remainder u t) = filter (\<lambda>c. c = dot) t"
  unfolding spec_price_remainder_eq by (induction t) auto

lemma py_float_dot: "py_float u [dot] = Inl ValueError"
  by (simp add: py_float_def dot_not_digit)


lemma consistent_sample: "consistent sample_unicode"
  by (auto simp: consistent_def is_space_def is_digit_def digit_value_def sample_unicode_def)

lemma price_remainders:
  "spec_price_remainder sample_unicode (rupee @ cp ''12,999'') = cp ''12999''"
  "spec_price_remainder sample_unicode (cp ''$999.99'') = cp ''999'' @ dot # cp ''99''"
  "spec_price_remainder sample_unicode (cp ''Rs.'') = [dot]"
  "spec_price_remainder sample_unicode devanagari_price = [0x967, 0x968, 0x96F, 0x96F, 0x96F]"
  by code_simp+

lemma price_digit_runs:
  "list_all (is_digit sample_unicode) (cp ''12999'')"
  "list_all (is_digit sample_unicode) (cp ''999'')"
  "list_all (is_digit sample_unicode) (cp ''99'')"
  "list_all (is_digit sample_unicode) [0x967, 0x968, 0x96F, 0x96F, 0x96F]"
  by code_simp+

lemma price_values:
  "decimal sample_unicode (cp ''12999'') = 12999"
  "decimal sample_unicode (cp ''999'') = 999"
  "decimal sample_unicode (cp ''99'') = 99"
  "length (cp ''99'') = 2"
  "decimal sample_unicode [0x967, 0x968, 0x96F, 0x96F, 0x96F] = 12999"
  by code_simp+

lemma price_doubles:
  "to_double 12999 = Finite 12999"
  "to_double (99999 / 100) = Finite (4398002530638889 / 4398046511104)"
  by (simp_all add: double_eval)

text \<open>
  Claim C6. Let the Unicode database have no code point that is both whitespace and a
  decimal digit. For every input text, let the remainder be the text with every
  character but decimal digits, \<open>.\<close> and \<open>,\<close> stripped and then every \<open>,\<close> removed. An
  absent input and an empty remainder give none. A remainder of digits alone gives the
  double nearest to its decimal value; a remainder \<open>ip.fp\<close> of two digit runs, at least
  one of them non-empty, gives the double nearest to the decimal number it denotes. A
  remainder that is not a number gives none: a lone \<open>.\<close>, and every text with two or
  more dots. The witness has the three examples of the claim: the rupee sign before
  \<open>12,999\<close> gives 12999.0, \<open>$999.99\<close> gives the double 999.99 and \<open>Rs.\<close> gives none; and a
  price in Devanagari digits after a no-break space.
\<close>

theorem price_normalizer_contract:
  assumes "consistent u"
  shows "extract_price u None = None
   \<and> (spec_price_remainder u t = [] \<longrightarrow> extract_price u (Some t) = None)
   \<and> (spec_price_remainder u t \<noteq> [] \<and> list_all (is_digit u) (spec_price_remainder u t)
        \<longrightarrow> extract_price u (Some t)
              = Some (to_double (of_nat (decimal u (spec_price_remainder u t)))))
   \<and> (\<forall>ip fp. spec_price_remainder u t = ip @ dot # fp
          \<and> list_all (is_digit u) ip \<and> list_all (is_digit u) fp \<and> (ip \<noteq> [] \<or> fp \<noteq> [])
        \<longrightarrow> extract_price u (Some t)
              = Some (to_double (of_nat (decimal u ip)
                                  + of_nat (decimal u fp) / 10 ^ length fp)))
   \<and> (spec_price_remainder u t = [dot] \<longrightarrow> extract_price u (Some t) = None)
   \<and> (2 \<le> length (filter (\<lambda>c. c = dot) t) \<longrightarrow> extract_price u (Some t) = None)"
proof (intro conjI allI impI)
  show "extract_price u None = None"
    by (simp add: extract_price_def falsy_def)
next
  assume "spec_price_remainder u t = []"
  then show "extract_price u (Some t) = None"
    by (simp add: extract_price_eq [OF assms])
next
  assume "spec_price_remainder u t \<noteq> [] \<and> list_all (is_digit u) (spec_price_remainder u t)"
  then show "extract_price u (Some t)
               = Some (to_double (of_nat (decimal u (spec_price_remainder u t))))"
    by (simp add: extract_price_eq [OF assms] py_float_digits)
next
  fix ip fp
  assume a: "spec_price_remainder u t = ip @ dot # fp
          \<and> list_all (is_digit u) ip \<and> list_all (is_digit u) fp \<and> (ip \<noteq> [] \<or> fp \<noteq> [])"
  then have "py_float u (spec_price_remainder u t)
               = Inr (to_double (of_nat (decimal u ip)
                                   + of_nat (decimal u fp) / 10 ^ length fp))"
    using py_float_fraction [of u ip fp] by simp
  with a show "extract_price u (Some t)
              = Some (to_double (of_nat (decimal u ip)
                                  + of_nat (decimal u fp) / 10 ^ length fp))"
    by (simp add: extract_price_eq [OF assms])
next
  assume "spec_price_remainder u t = [dot]"
  then show "extract_price u (Some t) = None"
    by (simp add: extract_price_eq [OF assms] py_float_dot)
next
  assume "2 \<le> length (filter (\<lambda>c. c = dot) t)"
  then have "2 \<le> length (filter (\<lambda>c. c = dot) (spec_price_remainder u t))"
    by (simp add: remainder_dots)
  then have "py_float u (spec_price_remainder u t) = Inl ValueError"
    by (rule py_float_two_dots)
  then show "extract_price u (Some t) = None"
    by (simp add: extract_price_eq [OF assms])
qed

theorem price_normalizer_contract_witness:
  "consistent sample_unicode
   \<and> extract_price sample_unicode (Some (rupee @ cp ''12,999'')) = Some (Finite 12999)
   \<and> extract_price sample_unicode (Some (cp ''$999.99''))
       = Some (Finite (4398002530638889 / 4398046511104))
   \<and> extract_price sample_unicode (Some (cp ''Rs.'')) = None
   \<and> extract_price sample_unicode (Some (cp ''1.299.00'')) = None
   \<and> extract_price sample_unicode (Some devanagari_price) = Some (Finite 12999)"
proof -
  note c = price_normalizer_contract [OF consistent_sample]
  have r: "spec_price_remainder sample_unicode (rupee @ cp ''12,999'') \<noteq> []
             \<and> list_all (is_digit sample_unicode)
                   (spec_price_remainder sample_unicode (rupee @ cp ''12,999''))"
    using price_digit_runs(1) by (simp add: price_remainders(1))
  have "extract_price sample_unicode (Some (rupee @ cp ''12,999''))
          = Some (to_double (of_nat (decimal sample_unicode
                     (spec_price_remainder sample_unicode (rupee @ cp ''12,999'')))))"
    using c [of "rupee @ cp ''12,999''"] r by blast
  then have 1: "extract_price sample_unicode (Some (rupee @ cp ''12,999'')) = Some (Finite 12999)"
    by (simp add: price_remainders(1) price_values price_doubles)
  have r2: "spec_price_remainder sample_unicode (cp ''$999.99'') = cp ''999'' @ dot # cp ''99''
             \<and> list_all (is_digit sample_unicode) (cp ''999'')
             \<and> list_all (is_digit sample_unicode) (cp ''99'')
             \<and> (cp ''999'' \<noteq> [] \<or> cp ''99'' \<noteq> [])"
    using price_digit_runs(2,3) by (simp add: price_remainders(2))
  have "extract_price sample_unicode (Some (cp ''$999.99''))
          = Some (to_double (of_nat (decimal sample_unicode (cp ''999''))
                    + of_nat (decimal sample_unicode (cp ''99'')) / 10 ^ length (cp ''99'')))"
    using c [of "cp ''$999.99''"] r2 by blast
  then have 2: "extract_price sample_unicode (Some (cp ''$999.99''))
                  = Some (Finite (4398002530638889 / 4398046511104))"
    by (simp add: price_values price_doubles)
  have 3: "extract_price sample_unicode (Some (cp ''Rs.'')) = None"
    using c [of "cp ''Rs.''"] by (simp add: price_remainders)
  have "2 \<le> length (filter (\<lambda>c. c = dot) (cp ''1.299.00''))"
    by (simp add: cp_def)
  then have 4: "extract_price sample_unicode (Some (cp ''1.299.00'')) = None"
    using c [of "cp ''1.299.00''"] by blast
  have r5: "spec_price_remainder sample_unicode devanagari_price \<noteq> []
             \<and> list_all (is_digit sample_unicode)
                   (spec_price_remainder sample_unicode devanagari_price)"
    using price_digit_runs(4) by (simp add: price_remainders(4))
  have "extract_price sample_unicode (Some devanagari_price)
          = Some (to_double (of_nat (decimal sample_unicode
                     (spec_price_remainder sample_unicode devanagari_price))))"
    using c [of devanagari_price] r5 by blast
  then have 5: "extract_price sample_unicode (Some devanagari_price) = Some (Finite 12999)"
    by (simp add: price_remainders(4) price_values price_doubles)
  from 1 2 3 4 5 consistent_sample show ?thesis by simp
qed

section \<open>The rating normalizer\<close>

lemma floor_log2_small:
  assumes "0 < q" "q < 16"
  shows "floor_log2 q \<le> 3"
proof (cases "1 \<le> q")
  case True
  have "\<lfloor>q\<rfloor> < 2 ^ 4"
    using assms(2) by (simp add: floor_less_iff)
  from bit_length_bound [OF this] True show ?thesis
    by (simp add: floor_log2_def)
next
  case False
  then show ?thesis
    using bit_length_nonneg [of "\<lceil>1 / q\<rceil> - 1"] by (simp add: floor_log2_def)
qed

lemma to_double_near:
  assumes "0 < q" "q < 16"
  shows "\<exists>r. to_double q = Finite r \<and> \<bar>r - q\<bar> \<le> 1 / 2 ^ 50"
proof -
  define k where "k = nat (52 - max (floor_log2 q) (- 1022))"
  define ulp :: rat where "ulp = 1 / 2 ^ k"
  define m where "m = round_half_even (q / ulp)"
  have k: "49 \<le> k"
    using floor_log2_small [OF assms] by (simp add: k_def)
  have "pow2 (max (floor_log2 q) (- 1022) - 52) = ulp"
    using floor_log2_small [OF assms] pow2_nonpos [of "max (floor_log2 q) (- 1022) - 52"]
    by (simp add: ulp_def k_def)
  then have pw: "pow2 (max (floor_log2 \<bar>q\<bar>) (- 1022) - 52) = ulp"
    using assms(1) by simp
  have ulp_pos: "0 < ulp"
    by (simp add: ulp_def)
  have "(2 :: rat) ^ 49 \<le> 2 ^ k"
    using k by (intro power_increasing) simp_all
  then have ulp_le: "ulp \<le> 1 / 2 ^ 49"
    unfolding ulp_def by (simp add: frac_le)
  have "\<bar>of_int m - q / ulp\<bar> \<le> 1 / 2"
    unfolding m_def by (rule round_half_even_near)
  then have "\<bar>of_int m - q / ulp\<bar> * ulp \<le> 1 / 2 * ulp"
    using ulp_pos by (intro mult_right_mono) simp_all
  moreover have "(of_int m - q / ulp) * ulp = of_int m * ulp - q"
    using ulp_pos by (simp add: left_diff_distrib)
  then have "\<bar>of_int m - q / ulp\<bar> * ulp = \<bar>of_int m * ulp - q\<bar>"
    using ulp_pos by (metis abs_mult abs_of_pos)
  ultimately have near: "\<bar>of_int m * ulp - q\<bar> \<le> 1 / 2 ^ 50"
    using ulp_le by simp
  have "(1 :: rat) / 2 ^ 50 \<le> 1"
    by simp
  with near have "\<bar>of_int m * ulp - q\<bar> \<le> 1"
    by (rule order_trans)
  with assms(2) have "of_int m * ulp < 17"
    by linarith
  also have "(17 :: rat) \<le> 2 ^ 1024"
    by simp
  finally have small: "\<not> 2 ^ 1024 \<le> of_int m * ulp"
    by simp
  have "to_double q = Finite (of_int m * ulp)"
    using assms(1) small
    unfolding to_double_def Let_def pw m_def [symmetric]
    by (simp add: abs_of_pos m_def)
  with near show ?thesis
    by blast
qed

lemma rating_range:
  assumes "a < (10 :: nat)" "b < (10 :: nat)"
  shows "(f_le (Finite 0) (to_double (of_nat a + of_nat b / 10))
          \<and> f_le (to_double (of_nat a + of_nat b / 10)) (Finite 5))
         \<longleftrightarrow> (of_nat a + of_nat b / 10 \<le> (5 :: rat))"
proof (cases "b = 0")
  case True
  show ?thesis
  proof (cases "a = 0")
    case True
    with \<open>b = 0\<close> show ?thesis
      by (simp add: to_double_zero)
  next
    case False
    have "to_double (of_int (int a)) = Finite (of_int (int a))"
      using False assms(1) by (intro to_double_int) simp_all
    then show ?thesis
      using \<open>b = 0\<close> by simp
  qed
next
  case False
  define k where "k = 10 * a + b"
  define v :: rat where "v = of_nat a + of_nat b / 10"
  have v: "v = of_nat k / 10"
    by (simp add: v_def k_def)
  have k: "0 < k" "k < 100" "k \<noteq> 50"
    using False assms unfolding k_def by presburger+
  have "0 < v" "v < 16"
    using k unfolding v by simp_all
  from to_double_near [OF this] obtain r where
    r: "to_double v = Finite r" "\<bar>r - v\<bar> \<le> 1 / 2 ^ 50"
    by blast
  have lo: "1 / 10 \<le> v"
    using k(1) unfolding v by simp
  have "(1 :: rat) / 2 ^ 50 \<le> 1 / 100"
    by simp
  with r(2) have near: "\<bar>r - v\<bar> \<le> 1 / 100"
    by (rule order_trans)
  show ?thesis
  proof (cases "k \<le> 49")
    case True
    then have "v \<le> 49 / 10"
      unfolding v by simp
    with near lo have "0 \<le> r \<and> r \<le> 5 \<and> v \<le> 5"
      by (intro conjI) linarith+
    then show ?thesis
      unfolding v_def [symmetric] r(1) by simp
  next
    case False
    with k(3) have "51 \<le> k" by simp
    then have "51 / 10 \<le> v"
      unfolding v by simp
    with near have "\<not> r \<le> 5 \<and> \<not> v \<le> 5"
      by (intro conjI) linarith+
    then show ?thesis
      unfolding v_def [symmetric] r(1) by simp
  qed
qed

lemma digit_value_less: "digit_value u c = Some v \<Longrightarrow> v < 10"
  by (auto simp: digit_value_def split: if_splits option.splits)

lemma digit_less: "is_digit u c \<Longrightarrow> the (digit_value u c) < 10"
  using digit_value_less [of u c] by (auto simp: is_digit_def)

lemma to_double_digit:
  assumes "a < (10 :: nat)"
  shows "to_double (of_nat a) = Finite (of_nat a)"
proof (cases "a = 0")
  case True
  then show ?thesis
    by (simp add: to_double_zero)
next
  case False
  have "to_double (of_int (int a)) = Finite (of_int (int a))"
    using False assms by (intro to_double_int) simp_all
  then show ?thesis
    by simp
qed

lemma rating_match_nil: "match_group u rating_rx Eps [] = None"
  by (simp add: match_group_def rating_rx_def)

lemma rating_match_nondigit:
  "\<not> is_digit u c \<Longrightarrow> match_group u rating_rx Eps (c # s) = None"
  by (simp add: match_group_def rating_rx_def)

lemma rating_match_fraction:
  "is_digit u d \<Longrightarrow> is_digit u d2 \<Longrightarrow>
     match_group u rating_rx Eps (d # dot # d2 # rest) = Some [d, dot, d2]"
  by (simp add: match_group_def rating_rx_def)

lemma rating_match_single:
  assumes "is_digit u d" "\<not> (\<exists>d2 rest'. rest = dot # d2 # rest' \<and> is_digit u d2)"
  shows "match_group u rating_rx Eps (d # rest) = Some [d]"
proof (cases rest)
  case Nil
  with assms(1) show ?thesis
    by (simp add: match_group_def rating_rx_def)
next
  case (Cons c1 r1)
  show ?thesis
  proof (cases r1)
    case Nil
    with Cons assms(1) show ?thesis
      by (simp add: match_group_def rating_rx_def)
  next
    case (Cons c2 r2)
    with \<open>rest = c1 # r1\<close> assms show ?thesis
      by (auto simp add: match_group_def rating_rx_def)
  qed
qed

lemma rating_search_skip:
  "\<forall>c\<in>set pre. \<not> is_digit u c \<Longrightarrow> s \<noteq> [] \<Longrightarrow>
     search_group u rating_rx Eps (pre @ s) = search_group u rating_rx Eps s"
  by (induction pre) (simp_all add: rating_match_nondigit)

lemma rating_search_none:
  "\<forall>c\<in>set t. \<not> is_digit u c \<Longrightarrow> search_group u rating_rx Eps t = None"
  by (induction t) (simp_all add: rating_match_nondigit rating_match_nil)

lemma decimal_single: "decimal u [d] = the (digit_value u d)"
  by (simp add: decimal_def)

lemma py_float_single:
  "is_digit u d \<Longrightarrow> py_float u [d] = Inr (Finite (of_nat (the (digit_value u d))))"
  using py_float_digits [of u "[d]"] by (simp add: decimal_single to_double_digit digit_less)

lemma py_float_one_decimal:
  "is_digit u d \<Longrightarrow> is_digit u d2 \<Longrightarrow>
     py_float u [d, dot, d2]
       = Inr (to_double (of_nat (the (digit_value u d)) + of_nat (the (digit_value u d2)) / 10))"
  using py_float_fraction [of u "[d]" "[d2]"] by (simp add: decimal_single)

lemma rating_digits:
  "is_digit sample_unicode 55" "is_digit sample_unicode 52" "is_digit sample_unicode 53"
  "digit_value sample_unicode 55 = Some 7" "digit_value sample_unicode 52 = Some 4"
  "digit_value sample_unicode 53 = Some 5"
  "is_digit sample_unicode 0x96A" "is_digit sample_unicode 0x96B"
  "digit_value sample_unicode 0x96A = Some 4" "digit_value sample_unicode 0x96B = Some 5"
  "is_digit sample_unicode 0x667" "digit_value sample_unicode 0x667 = Some 7"
  by code_simp+

lemma rating_double: "to_double (9 / 2) = Finite (9 / 2)"
  by (simp add: double_eval)

text \<open>
  Claim C7. For every input text the normalizer reads the first decimal digit of the
  text, together with a following \<open>.\<close> and one more digit when they are there, and
  nothing after it: a text without a digit, and an absent text, give none; otherwise
  the numeral is parsed as a decimal and the double nearest to it is returned when the
  numeral is at most 5 (it is never negative), and none is returned when it is greater.
  The witness has \<open>7 out of 5\<close>, which gives none, and \<open>4.5 out of 5\<close>, which gives 4.5,
  also written in Arabic-Indic and in Devanagari digits.
\<close>

theorem rating_normalizer_contract:
  "extract_rating u None = None
   \<and> ((\<forall>c\<in>set t. \<not> is_digit u c) \<longrightarrow> extract_rating u (Some t) = None)
   \<and> (\<forall>pre d d2 rest.
         t = pre @ d # dot # d2 # rest
         \<and> (\<forall>c\<in>set pre. \<not> is_digit u c) \<and> is_digit u d \<and> is_digit u d2
         \<longrightarrow> extract_rating u (Some t)
               = (if of_nat (the (digit_value u d)) + of_nat (the (digit_value u d2)) / 10
                       \<le> (5 :: rat)
                  then Some (to_double (of_nat (the (digit_value u d))
                                          + of_nat (the (digit_value u d2)) / 10))
                  else None))
   \<and> (\<forall>pre d rest.
         t = pre @ d # rest
         \<and> (\<forall>c\<in>set pre. \<not> is_digit u c) \<and> is_digit u d
         \<and> \<not> (\<exists>d2 rest'. rest = dot # d2 # rest' \<and> is_digit u d2)
         \<longrightarrow> extract_rating u (Some t)
               = (if the (digit_value u d) \<le> 5
                  then Some (Finite (of_nat (the (digit_value u d)))) else None))"
proof (intro conjI allI impI)
  show "extract_rating u None = None"
    by (simp add: extract_rating_def falsy_def)
next
  assume "\<forall>c\<in>set t. \<not> is_digit u c"
  then show "extract_rating u (Some t) = None"
    by (simp add: extract_rating_def rx_search_def rating_search_none)
next
  fix pre d d2 rest
  assume a: "t = pre @ d # dot # d2 # rest
         \<and> (\<forall>c\<in>set pre. \<not> is_digit u c) \<and> is_digit u d \<and> is_digit u d2"
  then have "search_group u rating_rx Eps t
               = search_group u rating_rx Eps (d # dot # d2 # rest)"
    using rating_search_skip [of pre u "d # dot # d2 # rest"] by simp
  also have "\<dots> = Some [d, dot, d2]"
    using a by (simp add: rating_match_fraction)
  finally have s: "rx_search u rating_rx t = Some [d, dot, d2]"
    by (simp add: rx_search_def)
  from a have ne: "t \<noteq> []" by simp
  from a have "the (digit_value u d) < 10" "the (digit_value u d2) < 10"
    by (simp_all add: digit_less)
  note rg = rating_range [OF this]
  show "extract_rating u (Some t)
               = (if of_nat (the (digit_value u d)) + of_nat (the (digit_value u d2)) / 10
                       \<le> (5 :: rat)
                  then Some (to_double (of_nat (the (digit_value u d))
                                          + of_nat (the (digit_value u d2)) / 10))
                  else None)"
    using a ne s rg by (simp add: extract_rating_def falsy_def py_float_one_decimal)
next
  fix pre d rest
  assume a: "t = pre @ d # rest
         \<and> (\<forall>c\<in>set pre. \<not> is_digit u c) \<and> is_digit u d
         \<and> \<not> (\<exists>d2 rest'. rest = dot # d2 # rest' \<and> is_digit u d2)"
  then have "search_group u rating_rx Eps t = search_group u rating_rx Eps (d # rest)"
    using rating_search_skip [of pre u "d # rest"] by simp
  also have "\<dots> = Some [d]"
    using a by (simp add: rating_match_single)
  finally have s: "rx_search u rating_rx t = Some [d]"
    by (simp add: rx_search_def)
  from a have ne: "t \<noteq> []" by simp
  show "extract_rating u (Some t)
               = (if the (digit_value u d) \<le> 5
                  then Some (Finite (of_nat (the (digit_value u d)))) else None)"
    using a ne s by (simp add: extract_rating_def falsy_def py_float_single)
qed

theorem rating_normalizer_contract_witness:
  "extract_rating sample_unicode (Some (cp ''7 out of 5'')) = None
   \<and> extract_rating sample_unicode (Some (cp ''4.5 out of 5'')) = Some (Finite (9 / 2))
   \<and> extract_rating sample_unicode (Some (cp ''no rating yet'')) = None
   \<and> extract_rating sample_unicode (Some devanagari_rating) = Some (Finite (9 / 2))
   \<and> extract_rating sample_unicode (Some arabic_rating) = None"
proof -
  have "cp ''7 out of 5'' = [] @ 55 # cp '' out of 5''
          \<and> (\<forall>c\<in>set ([] :: ustring). \<not> is_digit sample_unicode c)
          \<and> is_digit sample_unicode 55
          \<and> \<not> (\<exists>d2 rest'. cp '' out of 5'' = dot # d2 # rest' \<and> is_digit sample_unicode d2)"
    by (simp add: rating_digits cp_def)
  with rating_normalizer_contract [of sample_unicode "cp ''7 out of 5''"]
  have "extract_rating sample_unicode (Some (cp ''7 out of 5''))
          = (if the (digit_value sample_unicode 55) \<le> 5
             then Some (Finite (of_nat (the (digit_value sample_unicode 55)))) else None)"
    by blast
  then have 1: "extract_rating sample_unicode (Some (cp ''7 out of 5'')) = None"
    by (simp add: rating_digits)
  have "cp ''4.5 out of 5'' = [] @ 52 # dot # 53 # cp '' out of 5''
          \<and> (\<forall>c\<in>set ([] :: ustring). \<not> is_digit sample_unicode c)
          \<and> is_digit sample_unicode 52 \<and> is_digit sample_unicode 53"
    by (simp add: rating_digits cp_def)
  with rating_normalizer_contract [of sample_unicode "cp ''4.5 out of 5''"]
  have "extract_rating sample_unicode (Some (cp ''4.5 out of 5''))
          = (if of_nat (the (digit_value sample_unicode 52))
                  + of_nat (the (digit_value sample_unicode 53)) / 10 \<le> (5 :: rat)
             then Some (to_double (of_nat (the (digit_value sample_unicode 52))
                                     + of_nat (the (digit_value sample_unicode 53)) / 10))
             else None)"
    by blast
  then have 2: "extract_rating sample_unicode (Some (cp ''4.5 out of 5'')) = Some (Finite (9 / 2))"
    by (simp add: rating_digits rating_double)
  have "\<forall>c\<in>set (cp ''no rating yet''). \<not> is_digit sample_unicode c"
    by (simp add: is_digit_def digit_value_def cp_def)
  with rating_normalizer_contract [of sample_unicode "cp ''no rating yet''"]
  have 3: "extract_rating sample_unicode (Some (cp ''no rating yet'')) = None"
    by blast
  have "devanagari_rating = cp ''Rated '' @ 0x96A # dot # 0x96B # []
          \<and> (\<forall>c\<in>set (cp ''Rated ''). \<not> is_digit sample_unicode c)
          \<and> is_digit sample_unicode 0x96A \<and> is_digit sample_unicode 0x96B"
    by (simp add: rating_digits devanagari_rating_def)
       (simp add: is_digit_def digit_value_def cp_def)
  with rating_normalizer_contract [of sample_unicode devanagari_rating]
  have "extract_rating sample_unicode (Some devanagari_rating)
          = (if of_nat (the (digit_value sample_unicode 0x96A))
                  + of_nat (the (digit_value sample_unicode 0x96B)) / 10 \<le> (5 :: rat)
             then Some (to_double (of_nat (the (digit_value sample_unicode 0x96A))
                                     + of_nat (the (digit_value sample_unicode 0x96B)) / 10))
             else None)"
    by blast
  then have 4: "extract_rating sample_unicode (Some devanagari_rating) = Some (Finite (9 / 2))"
    by (simp add: rating_digits rating_double)
  have "arabic_rating = [] @ 0x667 # cp '' out of 5''
          \<and> (\<forall>c\<in>set ([] :: ustring). \<not> is_digit sample_unicode c)
          \<and> is_digit sample_unicode 0x667
          \<and> \<not> (\<exists>d2 rest'. cp '' out of 5'' = dot # d2 # rest' \<and> is_digit sample_unicode d2)"
    by (simp add: rating_digits arabic_rating_def cp_def)
  with rating_normalizer_contract [of sample_unicode arabic_rating]
  have "extract_rating sample_unicode (Some arabic_rating)
          = (if the (digit_value sample_unicode 0x667) \<le> 5
             then Some (Finite (of_nat (the (digit_value sample_unicode 0x667)))) else None)"
    by blast
  then have 5: "extract_rating sample_unicode (Some arabic_rating) = None"
    by (simp add: rating_digits)
  from 1 2 3 4 5 show ?thesis by simp
qed

end
